theory Spec2Isabelle
  imports Complex_Main "HOL-Library.Multiset"
begin

section \<open>Errors and array primitives\<close>

text \<open>
  The grid code of landlab is written over numpy arrays. Arrays of integer ids are lists
  of \<open>int\<close>. Arrays of floats are modelled as lists of reals: comparisons, indexing,
  control flow and errors are those of the code, while sums, products and quotients are
  exact where the code rounds (and a quotient by zero, inf or nan in numpy, is never
  relied on). A statement about a value that the code computes by rounded arithmetic is
  therefore a statement about exact arithmetic, and is marked so. Every Python exception
  the modelled code can raise is a value of \<open>error\<close>, and a function that can raise
  returns \<open>error + 'a\<close>.
\<close>

datatype error = AssertionError | AttributeError | IndexError | ValueError | KeyError

definition and_then :: "error + 'a \<Rightarrow> ('a \<Rightarrow> error + 'b) \<Rightarrow> error + 'b" where
  "and_then m f = (case m of Inl e \<Rightarrow> Inl e | Inr v \<Rightarrow> f v)"

text \<open>
  Indexing. An index \<open>i\<close> into an array of length \<open>n\<close> is in range when
  \<open>-n \<le> i < n\<close>; a negative index counts from the end. \<open>a[i]\<close> out of range raises
  IndexError.
\<close>

definition np_valid :: "nat \<Rightarrow> int \<Rightarrow> bool" where
  "np_valid n i \<longleftrightarrow> - int n \<le> i \<and> i < int n"

definition np_pos :: "nat \<Rightarrow> int \<Rightarrow> nat" where
  "np_pos n i = nat (if i < 0 then i + int n else i)"

definition np_at :: "'a list \<Rightarrow> int \<Rightarrow> 'a" where
  "np_at xs i = xs ! np_pos (length xs) i"

definition np_get :: "'a list \<Rightarrow> int \<Rightarrow> error + 'a" where
  "np_get xs i = (if np_valid (length xs) i then Inr (np_at xs i) else Inl IndexError)"

text \<open>\<open>a[idx]\<close> with an integer array (fancy indexing): one read per index.\<close>

primrec np_take :: "'a list \<Rightarrow> int list \<Rightarrow> error + 'a list" where
  "np_take xs [] = Inr []"
| "np_take xs (i # js) =
     and_then (np_get xs i) (\<lambda>v. and_then (np_take xs js) (\<lambda>vs. Inr (v # vs)))"

text \<open>An elementwise binary operation on two one-dimensional arrays, with numpy's
  broadcasting: equal lengths, or one operand of length 1; anything else is a
  ValueError.\<close>

definition np_binop :: "('a \<Rightarrow> 'b \<Rightarrow> 'c) \<Rightarrow> 'a list \<Rightarrow> 'b list \<Rightarrow> error + 'c list" where
  "np_binop f xs ys =
     (if length xs = length ys then Inr (map2 f xs ys)
      else if length xs = 1 then Inr (map (f (hd xs)) ys)
      else if length ys = 1 then Inr (map (\<lambda>x. f x (hd ys)) xs)
      else Inl ValueError)"

text \<open>\<open>numpy.where(c, a, b)\<close>: the three operands are broadcast together.\<close>

definition np_where :: "bool list \<Rightarrow> 'a list \<Rightarrow> 'a list \<Rightarrow> error + 'a list" where
  "np_where c a b =
     and_then (np_binop Pair a b)
       (\<lambda>ab. np_binop (\<lambda>t p. if t then fst p else snd p) c ab)"

text \<open>Writing a computed array into a buffer of fixed length (\<open>out[:] = v\<close>, the
  \<open>out=\<close> argument of a ufunc, \<open>a += v\<close>): the value must have the buffer's length, or
  length 1, and the buffer keeps its length.\<close>

definition np_store :: "nat \<Rightarrow> 'a list \<Rightarrow> error + 'a list" where
  "np_store n vs =
     (if length vs = n then Inr vs
      else if length vs = 1 then Inr (replicate n (hd vs))
      else Inl ValueError)"

text \<open>The same for a buffer that a reduction writes (\<open>numpy.amax(..., out=out)\<close>): the
  shape must be the result's.\<close>

definition np_store_exact :: "nat \<Rightarrow> 'a list \<Rightarrow> error + 'a list" where
  "np_store_exact n vs = (if length vs = n then Inr vs else Inl ValueError)"

text \<open>\<open>a[idx] = vs\<close> with an integer array \<open>idx\<close> and as many values: the writes happen in
  order, so a repeated index keeps its last value.\<close>

fun np_put :: "'a list \<Rightarrow> int list \<Rightarrow> 'a list \<Rightarrow> error + 'a list" where
  "np_put xs [] [] = Inr xs"
| "np_put xs (i # js) (v # vs) =
     (if np_valid (length xs) i then np_put (xs[np_pos (length xs) i := v]) js vs
      else Inl IndexError)"
| "np_put xs [] (v # vs) = Inl ValueError"
| "np_put xs (i # js) [] = Inl ValueError"

text \<open>A function that can raise, applied to every element in order.\<close>

primrec map_err :: "('a \<Rightarrow> error + 'b) \<Rightarrow> 'a list \<Rightarrow> error + 'b list" where
  "map_err f [] = Inr []"
| "map_err f (x # xs) = and_then (f x) (\<lambda>v. and_then (map_err f xs) (\<lambda>vs. Inr (v # vs)))"

text \<open>Two-dimensional arrays are lists of rows. \<open>a[idx]\<close> with a two-dimensional index
  array reads row by row; a binary operation broadcasts the rows and, within a pair of
  rows, the columns. (An array with no rows has no column count in this model.)\<close>

definition np_take2 :: "'a list \<Rightarrow> int list list \<Rightarrow> error + 'a list list" where
  "np_take2 xs rows = map_err (np_take xs) rows"

definition np_binop2 ::
  "('a \<Rightarrow> 'b \<Rightarrow> 'c) \<Rightarrow> 'a list list \<Rightarrow> 'b list list \<Rightarrow> error + 'c list list" where
  "np_binop2 f A B =
     (if length A = length B then map_err (\<lambda>(r, s). np_binop f r s) (zip A B)
      else if length A = 1 then map_err (\<lambda>s. np_binop f (hd A) s) B
      else if length B = 1 then map_err (\<lambda>r. np_binop f r (hd B)) A
      else Inl ValueError)"

text \<open>\<open>numpy.amax(a, axis=1)\<close>: the largest entry of each row; a row with no entry has no
  maximum (ValueError).\<close>

definition np_amax :: "real list \<Rightarrow> error + real" where
  "np_amax row = (case row of [] \<Rightarrow> Inl ValueError | x # xs \<Rightarrow> Inr (fold max xs x))"

section \<open>The grid\<close>

text \<open>
  The attributes of a \<open>ModelGrid\<close> that the modelled functions read. The tables are built
  by the base class, which is not among the sources here, so they are data of the grid.
  \<open>at_node\<close> and \<open>at_link\<close> are the field stores (name to array).
\<close>

record grid =
  number_of_nodes :: nat
  number_of_links :: nat
  number_of_active_links :: nat
  node_x :: "real list"
  node_y :: "real list"
  status_at_node :: "int list"
  node_at_link_tail :: "int list"
  node_at_link_head :: "int list"
  links_at_node :: "int list list"
  link_dirs_at_node :: "int list list"
  face_width :: "real list"
  node_active_inlink_matrix :: "int list list"
  node_active_outlink_matrix :: "int list list"
  node_at_cell :: "int list"
  core_cells :: "int list"
  area_of_cell :: "real list"
  at_node :: "string \<rightharpoonup> real list"
  at_link :: "string \<rightharpoonup> real list"

text \<open>An operator argument is a field name or an array (\<open>type(name) is str\<close>); a name
  that the store does not hold raises KeyError.\<close>

datatype field_arg = Name string | Array "real list"

definition field_values :: "(string \<rightharpoonup> real list) \<Rightarrow> field_arg \<Rightarrow> error + real list" where
  "field_values store a =
     (case a of
        Array vs \<Rightarrow> Inr vs
      | Name s \<Rightarrow> (case store s of None \<Rightarrow> Inl KeyError | Some vs \<Rightarrow> Inr vs))"

text \<open>\<open>out\<close> is a caller's buffer or \<open>None\<close>; \<open>grid.empty(centering=...)\<close> then makes one
  of the element count. Only the buffer's length matters where the function overwrites
  all of it.\<close>

definition out_length :: "nat \<Rightarrow> 'a list option \<Rightarrow> nat" where
  "out_length n out = (case out of None \<Rightarrow> n | Some buf \<Rightarrow> length buf)"

section \<open>mappers.py: value at the node with the smaller or larger control value\<close>

definition map_value_at_min_node_to_link ::
  "'a grid_scheme \<Rightarrow> field_arg \<Rightarrow> field_arg \<Rightarrow> real list option \<Rightarrow> error + real list" where
  "map_value_at_min_node_to_link g control_name value_name out =
     and_then (field_values (at_node g) control_name) (\<lambda>control.
     and_then (field_values (at_node g) value_name) (\<lambda>vals.
     and_then (np_take control (node_at_link_head g)) (\<lambda>head_control.
     and_then (np_take control (node_at_link_tail g)) (\<lambda>tail_control.
     and_then (np_take vals (node_at_link_head g)) (\<lambda>head_vals.
     and_then (np_take vals (node_at_link_tail g)) (\<lambda>tail_vals.
     and_then (np_binop (<) tail_control head_control) (\<lambda>c.
     and_then (np_where c tail_vals head_vals) (\<lambda>w.
       np_store (out_length (number_of_links g) out) w))))))))"

definition map_value_at_max_node_to_link ::
  "'a grid_scheme \<Rightarrow> field_arg \<Rightarrow> field_arg \<Rightarrow> real list option \<Rightarrow> error + real list" where
  "map_value_at_max_node_to_link g control_name value_name out =
     and_then (field_values (at_node g) control_name) (\<lambda>control.
     and_then (field_values (at_node g) value_name) (\<lambda>vals.
     and_then (np_take control (node_at_link_head g)) (\<lambda>head_control.
     and_then (np_take control (node_at_link_tail g)) (\<lambda>tail_control.
     and_then (np_take vals (node_at_link_head g)) (\<lambda>head_vals.
     and_then (np_take vals (node_at_link_tail g)) (\<lambda>tail_vals.
     and_then (np_binop (>) tail_control head_control) (\<lambda>c.
     and_then (np_where c tail_vals head_vals) (\<lambda>w.
       np_store (out_length (number_of_links g) out) w))))))))"

section \<open>mappers.py: upwind maximum and mean\<close>

text \<open>
  \<open>values_at_links = var_name[grid.links_at_node] * grid.link_dirs_at_node\<close>, negated:
  the entry of a link that brings flux into the node is positive.
\<close>

definition vals_in_positive :: "'a grid_scheme \<Rightarrow> real list \<Rightarrow> error + real list list" where
  "vals_in_positive g var =
     and_then (np_take2 var (links_at_node g)) (\<lambda>at_links.
     and_then (np_binop2 (\<lambda>v d. v * real_of_int d) at_links (link_dirs_at_node g))
       (\<lambda>values_at_links. Inr (map (map uminus) values_at_links)))"

definition map_upwind_node_link_max_to_node ::
  "'a grid_scheme \<Rightarrow> field_arg \<Rightarrow> real list option \<Rightarrow> error + real list" where
  "map_upwind_node_link_max_to_node g var_name out =
     and_then (field_values (at_link g) var_name) (\<lambda>var.
     and_then (vals_in_positive g var) (\<lambda>neg.
     and_then (map_err np_amax neg) (\<lambda>m.
       np_store_exact (out_length (number_of_nodes g) out) m)))"

text \<open>
  The mean: \<open>total_vals\<close> sums the entries above zero, \<open>link_count\<close> counts them, and
  \<open>np.divide\<close> gives \<open>0/0 = nan\<close> where there is none, which
  \<open>out[np.isnan(out)] = 0.\<close> replaces by 0.
\<close>

definition row_total :: "real list \<Rightarrow> real" where
  "row_total row = sum_list (map (\<lambda>v. v * (if v > 0 then 1 else 0)) row)"

definition row_count :: "real list \<Rightarrow> nat" where
  "row_count row = length (filter (\<lambda>v. v > 0) row)"

definition divide_nan_to_zero :: "real \<Rightarrow> nat \<Rightarrow> real" where
  "divide_nan_to_zero total_vals n = (if n = 0 then 0 else total_vals / real n)"

definition map_upwind_node_link_mean_to_node ::
  "'a grid_scheme \<Rightarrow> field_arg \<Rightarrow> real list option \<Rightarrow> error + real list" where
  "map_upwind_node_link_mean_to_node g var_name out =
     and_then (field_values (at_link g) var_name) (\<lambda>var.
     and_then (vals_in_positive g var) (\<lambda>pos.
     and_then (np_binop divide_nan_to_zero (map row_total pos) (map row_count pos)) (\<lambda>q.
       np_store (out_length (number_of_nodes g) out) q)))"

text \<open>Well-formed link tables: both endpoint arrays have one entry per link, and every
  entry is a node id.\<close>

definition links_ok :: "'a grid_scheme \<Rightarrow> bool" where
  "links_ok g \<longleftrightarrow>
     length (node_at_link_tail g) = number_of_links g \<and>
     length (node_at_link_head g) = number_of_links g \<and>
     (\<forall>n \<in> set (node_at_link_tail g) \<union> set (node_at_link_head g).
        0 \<le> n \<and> n < int (number_of_nodes g))"

text \<open>
  Well-formed node tables for an array of link values: one row of links and one row of
  directions per node, of the same length, and every link entry indexes the array (a
  link id, or \<open>-1\<close>). \<open>upwind_entries\<close> is the row of the negated product at a node.
\<close>

definition node_links_ok :: "'a grid_scheme \<Rightarrow> real list \<Rightarrow> bool" where
  "node_links_ok g var \<longleftrightarrow>
     length (links_at_node g) = number_of_nodes g \<and>
     length (link_dirs_at_node g) = number_of_nodes g \<and>
     (\<forall>n < number_of_nodes g.
        length (links_at_node g ! n) = length (link_dirs_at_node g ! n) \<and>
        (\<forall>l \<in> set (links_at_node g ! n). np_valid (length var) l))"

definition upwind_entries :: "'a grid_scheme \<Rightarrow> real list \<Rightarrow> nat \<Rightarrow> real list" where
  "upwind_entries g var n =
     map2 (\<lambda>l d. - (np_at var l * real_of_int d)) (links_at_node g ! n) (link_dirs_at_node g ! n)"

section \<open>grid\_funcs.py: flux divergence at nodes\<close>

text \<open>
  The loop \<open>for i in range(np.size(grid.node_active_inlink_matrix, 0))\<close>: row \<open>i\<close> of the
  outlink matrix adds its fluxes to every node, row \<open>i\<close> of the inlink matrix subtracts
  its own. \<open>flux\<close> has one slot more than there are active links, so the id \<open>-1\<close> of an
  absent link reads the 0 in the last slot.
\<close>

primrec flux_rows ::
  "real list \<Rightarrow> int list list \<Rightarrow> int list list \<Rightarrow> nat list \<Rightarrow> real list \<Rightarrow> error + real list" where
  "flux_rows flux outm inm [] net = Inr net"
| "flux_rows flux outm inm (i # rest) net =
     and_then (np_get outm (int i)) (\<lambda>orow.
     and_then (np_take flux orow) (\<lambda>fo.
     and_then (np_binop (+) net fo) (\<lambda>s1.
     and_then (np_store (length net) s1) (\<lambda>net1.
     and_then (np_get inm (int i)) (\<lambda>irow.
     and_then (np_take flux irow) (\<lambda>fi.
     and_then (np_binop (-) net1 fi) (\<lambda>s2.
     and_then (np_store (length net1) s2) (\<lambda>net2.
       flux_rows flux outm inm rest net2))))))))"

definition calculate_flux_divergence_at_nodes ::
  "'a grid_scheme \<Rightarrow> real list \<Rightarrow> real list option \<Rightarrow> error + real list" where
  "calculate_flux_divergence_at_nodes g active_link_flux out =
     (if length active_link_flux \<noteq> number_of_active_links g then Inl AssertionError
      else if out_length (number_of_nodes g) out \<noteq> number_of_nodes g then Inl AssertionError
      else
        and_then (np_binop (*) active_link_flux (face_width g)) (\<lambda>total_flux.
        and_then (np_store (length active_link_flux) total_flux) (\<lambda>body.
        and_then (flux_rows (body @ [0]) (node_active_outlink_matrix g)
                    (node_active_inlink_matrix g)
                    [0 ..< length (node_active_inlink_matrix g)]
                    (replicate (number_of_nodes g) 0)) (\<lambda>net_unit_flux.
        and_then (np_take (node_at_cell g) (core_cells g)) (\<lambda>node_at_active_cell.
        and_then (np_take net_unit_flux node_at_active_cell) (\<lambda>vals.
        and_then (np_take (area_of_cell g) (core_cells g)) (\<lambda>areas.
        and_then (np_binop (/) vals areas) (\<lambda>q.
          np_put net_unit_flux node_at_active_cell q))))))))"

text \<open>
  What the operator is said to compute. \<open>face_flux\<close> is the total flux through the face
  of an active link (unit flux times face width), 0 for the absent link \<open>-1\<close>;
  \<open>net_flux\<close> at a node is the sum over its outlinks minus the sum over its inlinks.
  \<open>core_cell_nodes\<close> are the nodes \<open>grid.node_at_cell[grid.core_cells]\<close>.
\<close>

definition face_flux :: "'a grid_scheme \<Rightarrow> real list \<Rightarrow> int \<Rightarrow> real" where
  "face_flux g flux l = np_at (map2 (*) flux (face_width g) @ [0]) l"

definition net_flux :: "'a grid_scheme \<Rightarrow> real list \<Rightarrow> nat \<Rightarrow> real" where
  "net_flux g flux n =
     (\<Sum>i\<leftarrow>[0 ..< length (node_active_inlink_matrix g)].
        face_flux g flux (node_active_outlink_matrix g ! i ! n) -
        face_flux g flux (node_active_inlink_matrix g ! i ! n))"

definition core_cell_nodes :: "'a grid_scheme \<Rightarrow> int list" where
  "core_cell_nodes g = map (\<lambda>c. node_at_cell g ! nat c) (core_cells g)"

text \<open>
  Well-formed tables: one face width per active link; inlink and outlink matrices of the
  same shape, one column per node, holding active-link ids or \<open>-1\<close>; one area per cell;
  core cells are cells, their nodes are nodes, and no two core cells share a node.
\<close>

definition flux_tables_ok :: "'a grid_scheme \<Rightarrow> bool" where
  "flux_tables_ok g \<longleftrightarrow>
     length (face_width g) = number_of_active_links g \<and>
     length (node_active_outlink_matrix g) = length (node_active_inlink_matrix g) \<and>
     (\<forall>row \<in> set (node_active_inlink_matrix g) \<union> set (node_active_outlink_matrix g).
        length row = number_of_nodes g \<and>
        (\<forall>l \<in> set row. - 1 \<le> l \<and> l < int (number_of_active_links g))) \<and>
     length (area_of_cell g) = length (node_at_cell g) \<and>
     (\<forall>c \<in> set (core_cells g). 0 \<le> c \<and> c < int (length (node_at_cell g))) \<and>
     (\<forall>n \<in> set (node_at_cell g). 0 \<le> n \<and> n < int (number_of_nodes g)) \<and>
     distinct (core_cell_nodes g)"

text \<open>The total width of the faces of a node's outgoing and incoming active links.\<close>

definition face_width_at :: "'a grid_scheme \<Rightarrow> int \<Rightarrow> real" where
  "face_width_at g l = np_at (face_width g @ [0]) l"

definition outgoing_width :: "'a grid_scheme \<Rightarrow> nat \<Rightarrow> real" where
  "outgoing_width g n = (\<Sum>row\<leftarrow>node_active_outlink_matrix g. face_width_at g (row ! n))"

definition incoming_width :: "'a grid_scheme \<Rightarrow> nat \<Rightarrow> real" where
  "incoming_width g n = (\<Sum>row\<leftarrow>node_active_inlink_matrix g. face_width_at g (row ! n))"



section \<open>voronoi.py: sorting the points\<close>

text \<open>
  \<open>argsort_points_by_x_then_y\<close> and \<open>sort_points_by_x_then_y\<close> belong to
  \<open>landlab.core.utils\<close>, which is not among the sources here. The spec describes a
  stable sort of the points on their two coordinates and words the order as x first;
  the two examples that voronoi.py documents (the class docstring, lines 124-141, and
  the docstring of \<open>create_links_and_faces_from_voronoi_diagram\<close>, lines 524-536) show
  arrays in ascending y, with equal y in ascending x. The definitions follow the
  documented arrays.
\<close>

text \<open>Modelled from the spec: the order of the missing \<open>sort_points_by_x_then_y\<close>, a
  comparison of the two coordinates, with the keys in the order that the doctests of
  voronoi.py document: ascending y, ties broken by ascending x.\<close>

definition y_then_x_le :: "real \<times> real \<Rightarrow> real \<times> real \<Rightarrow> bool" where
  "y_then_x_le p q \<longleftrightarrow> snd p < snd q \<or> (snd p = snd q \<and> fst p \<le> fst q)"

text \<open>Modelled from the spec: one step of the missing sort, stable for duplicate
  coordinates as the spec asks: index \<open>i\<close> goes after every index whose point is not
  larger than its own.\<close>

primrec insert_index :: "(real \<times> real) list \<Rightarrow> nat \<Rightarrow> nat list \<Rightarrow> nat list" where
  "insert_index pts i [] = [i]"
| "insert_index pts i (j # js) =
     (if y_then_x_le (pts ! j) (pts ! i) then j # insert_index pts i js else i # j # js)"

text \<open>Modelled from the spec: \<open>argsort_points_by_x_then_y\<close>, which is missing from the
  sources: the indices \<open>0..N-1\<close> in the sorted order of their points.\<close>

definition argsort_points_by_x_then_y :: "(real \<times> real) list \<Rightarrow> nat list" where
  "argsort_points_by_x_then_y pts = foldl (\<lambda>acc i. insert_index pts i acc) [] [0 ..< length pts]"

text \<open>Modelled from the spec: \<open>sort_points_by_x_then_y\<close>, which is missing from the
  sources: the points reordered (\<open>pts[:] = pts[indices]\<close>; the array is sorted in place,
  which \<open>_initialize\<close> relies on when it reads the columns of \<open>pts\<close> after the call).\<close>

definition sort_points_by_x_then_y :: "(real \<times> real) list \<Rightarrow> (real \<times> real) list" where
  "sort_points_by_x_then_y pts = map (\<lambda>i. pts ! i) (argsort_points_by_x_then_y pts)"

text \<open>
  The first lines of \<open>VoronoiDelaunayGrid._initialize\<close>: the coordinate arrays must have
  the same size (ValueError otherwise); the points are sorted, and the sorted array is
  both \<open>self.pts\<close>, which every later step of the construction reads, and the node
  coordinates \<open>node_x\<close>, \<open>node_y\<close>. The result is \<open>(pts, node_x, node_y)\<close>.
\<close>

definition initialize_points ::
  "real list \<Rightarrow> real list \<Rightarrow> error + ((real \<times> real) list \<times> real list \<times> real list)" where
  "initialize_points x y =
     (if length x \<noteq> length y then Inl ValueError
      else let pts = sort_points_by_x_then_y (zip x y)
           in Inr (pts, map fst pts, map snd pts))"

section \<open>voronoi.py: link reorientation\<close>

text \<open>
  \<open>numpy.arctan2(a, b)\<close> is the angle of the point with abscissa \<open>b\<close> and ordinate \<open>a\<close>,
  in \<open>(-pi, pi]\<close>. (The sign of a floating-point zero is not modelled.)
\<close>

definition arctan2 :: "real \<Rightarrow> real \<Rightarrow> real" where
  "arctan2 a b =
     (if b > 0 then arctan (a / b)
      else if b < 0 then (if a \<ge> 0 then arctan (a / b) + pi else arctan (a / b) - pi)
      else if a > 0 then pi / 2
      else if a < 0 then - (pi / 2)
      else 0)"

text \<open>The angle of a link after the rotation by 45 degrees and the wrap into
  \<open>[-pi, pi)\<close>; the link is flipped when it is negative.\<close>

definition link_angle :: "real \<Rightarrow> real \<Rightarrow> real" where
  "link_angle link_dx link_dy =
     (let a = arctan2 link_dx link_dy + pi / 4
      in a - 2 * pi * (if a \<ge> pi then 1 else 0))"

definition flip_locs :: "real list \<Rightarrow> int list" where
  "flip_locs angles = map int (filter (\<lambda>i. angles ! i < 0) [0 ..< length angles])"

definition reorient_links_upper_right :: "'a grid_scheme \<Rightarrow> error + 'a grid_scheme" where
  "reorient_links_upper_right g =
     and_then (np_take (node_x g) (node_at_link_head g)) (\<lambda>xh.
     and_then (np_take (node_x g) (node_at_link_tail g)) (\<lambda>xt.
     and_then (np_binop (-) xh xt) (\<lambda>link_dx.
     and_then (np_take (node_y g) (node_at_link_head g)) (\<lambda>yh.
     and_then (np_take (node_y g) (node_at_link_tail g)) (\<lambda>yt.
     and_then (np_binop (-) yh yt) (\<lambda>link_dy.
     and_then (np_binop link_angle link_dx link_dy) (\<lambda>angles.
       let locs = flip_locs angles
       in if length locs > 0 then
            and_then (np_take (node_at_link_tail g) locs) (\<lambda>fromnode_temp.
            and_then (np_take (node_at_link_head g) locs) (\<lambda>heads.
            and_then (np_put (node_at_link_tail g) locs heads) (\<lambda>tails'.
            and_then (np_put (node_at_link_head g) locs fromnode_temp) (\<lambda>heads'.
              Inr (g\<lparr>node_at_link_tail := tails', node_at_link_head := heads'\<rparr>)))))
          else Inr g)))))))"

text \<open>A grid whose link and coordinate tables fit together.\<close>

definition link_geometry_ok :: "'a grid_scheme \<Rightarrow> bool" where
  "link_geometry_ok g \<longleftrightarrow>
     links_ok g \<and> length (node_x g) = number_of_nodes g \<and> length (node_y g) = number_of_nodes g"

text \<open>Whether link \<open>i\<close> is one of the \<open>flip_locs\<close>: its angle is negative.\<close>

definition link_flips :: "'a grid_scheme \<Rightarrow> nat \<Rightarrow> bool" where
  "link_flips g i \<longleftrightarrow>
     link_angle
       (node_x g ! nat (node_at_link_head g ! i) - node_x g ! nat (node_at_link_tail g ! i))
       (node_y g ! nat (node_at_link_head g ! i) - node_y g ! nat (node_at_link_tail g ! i)) < 0"

section \<open>voronoi.py: links and faces from the Voronoi diagram\<close>

text \<open>
  What \<open>scipy.spatial.Voronoi\<close> returns, as far as the grid reads it: the input points,
  the Voronoi vertices, for every ridge the two points it separates and its two
  vertices (\<open>-1\<close> for a vertex at infinity), and the regions (lists of vertex ids).
\<close>

record voronoi =
  points :: "(real \<times> real) list"
  vertices :: "(real \<times> real) list"
  ridge_points :: "(int \<times> int) list"
  ridge_vertices :: "(int \<times> int) list"
  regions :: "int list list"

definition SUSPICIOUSLY_BIG :: real where
  "SUSPICIOUSLY_BIG = 40000000"

text \<open>\<open>and\<close> is short-circuit: the vertices are read only when both are defined.\<close>

definition is_valid_voronoi_ridge :: "voronoi \<Rightarrow> int \<Rightarrow> error + bool" where
  "is_valid_voronoi_ridge vor n =
     and_then (np_get (ridge_vertices vor) n) (\<lambda>(v0, v1).
       if v0 \<noteq> - 1 \<and> v1 \<noteq> - 1 then
         and_then (np_get (vertices vor) v0) (\<lambda>(x0, y0).
         and_then (np_get (vertices vor) v1) (\<lambda>(x1, y1).
           Inr (max (max \<bar>x0\<bar> \<bar>y0\<bar>) (max \<bar>x1\<bar> \<bar>y1\<bar>) < SUSPICIOUSLY_BIG)))
       else Inr False)"

text \<open>
  The loop over the links. The state is the four arrays and the count \<open>j\<close> of faces
  written so far. \<open>ind\<close> is the order of the ridges by link midpoint; it is the result of
  \<open>argsort_points_by_x_then_y(link_midpoints)\<close>, a helper that is not among the sources
  here, so it is an argument. Writing \<open>face_width[j]\<close> past the end of the array raises
  IndexError.
\<close>

primrec ridge_loop ::
  "voronoi \<Rightarrow> int list \<Rightarrow> nat list \<Rightarrow>
   int list \<times> int list \<times> int list \<times> real list \<times> nat \<Rightarrow>
   error + (int list \<times> int list \<times> int list \<times> real list \<times> nat)" where
  "ridge_loop vor ind [] st = Inr st"
| "ridge_loop vor ind (i # rest) st =
     (case st of (link_fromnode, link_tonode, active_links, widths, j) \<Rightarrow>
        and_then (np_get ind (int i)) (\<lambda>r.
        and_then (np_get (ridge_points vor) r) (\<lambda>(p0, p1).
        and_then (np_get (ridge_vertices vor) r) (\<lambda>(face_corner1, face_corner2).
        and_then (is_valid_voronoi_ridge vor r) (\<lambda>valid.
          if valid then
            and_then (np_get (vertices vor) face_corner2) (\<lambda>(x2, y2).
            and_then (np_get (vertices vor) face_corner1) (\<lambda>(x1, y1).
              if j < length widths then
                ridge_loop vor ind rest
                  (link_fromnode[i := p0], link_tonode[i := p1],
                   active_links[j := int i],
                   widths[j := sqrt ((x2 - x1) * (x2 - x1) + (y2 - y1) * (y2 - y1))],
                   Suc j)
              else Inl IndexError))
          else
            ridge_loop vor ind rest
              (link_fromnode[i := p0], link_tonode[i := p1], active_links, widths, j))))))"

text \<open>
  \<open>create_links_and_faces_from_voronoi_diagram\<close>: the number of links is the number of
  ridges; the number of active links is that number minus the number of \<open>-1\<close> entries of
  \<open>ridge_vertices\<close> (an array of negative length is a ValueError); all four arrays start
  filled with \<open>-1\<close>. The midpoints are computed before the sort (a ridge point that is
  not a point raises IndexError). The result is
  \<open>(link_fromnode, link_tonode, active_links, face_width)\<close>.
\<close>

definition count_undefined :: "(int \<times> int) list \<Rightarrow> nat" where
  "count_undefined rv =
     length (filter (\<lambda>v. v = - 1) (map fst rv)) + length (filter (\<lambda>v. v = - 1) (map snd rv))"

definition link_midpoint :: "voronoi \<Rightarrow> int \<times> int \<Rightarrow> error + (real \<times> real)" where
  "link_midpoint vor rp =
     and_then (np_get (points vor) (fst rp)) (\<lambda>a.
     and_then (np_get (points vor) (snd rp)) (\<lambda>b.
       Inr ((fst a + fst b) / 2, (snd a + snd b) / 2)))"

definition create_links_and_faces_from_voronoi_diagram ::
  "int list \<Rightarrow> voronoi \<Rightarrow> error + (int list \<times> int list \<times> int list \<times> real list)" where
  "create_links_and_faces_from_voronoi_diagram ind vor =
     (let num_links = length (ridge_points vor);
          num_active_links = int num_links - int (count_undefined (ridge_vertices vor))
      in if num_active_links < 0 then Inl ValueError
         else
           and_then (map_err (link_midpoint vor) (ridge_points vor)) (\<lambda>link_midpoints.
           and_then (ridge_loop vor ind [0 ..< num_links]
                       (replicate num_links (- 1), replicate num_links (- 1),
                        replicate (nat num_active_links) (- 1),
                        replicate (nat num_active_links) (- 1), 0))
             (\<lambda>(link_fromnode, link_tonode, active_links, widths, j).
                Inr (link_fromnode, link_tonode, active_links, widths))))"

text \<open>
  A Voronoi diagram of four points, one of them (point 2) inside the triangle of the
  other three: \<open>(0, 0)\<close>, \<open>(57600000, 0)\<close>, \<open>(14400000, 19200000)\<close> and
  \<open>(0, 38400000)\<close>. Its three vertices are the circumcentres of the three triangles
  around point 2. The ridges are listed by ascending y, then x, of the midpoint of their
  link, the order of the documented examples. The ridges of the links 0-2, 1-2 and 2-3
  have both vertices; vertex 2 lies beyond \<open>SUSPICIOUSLY_BIG\<close>.
\<close>

definition far_vertex_diagram :: voronoi where
  "far_vertex_diagram =
     \<lparr> points = [(0, 0), (57600000, 0), (14400000, 19200000), (0, 38400000)],
       vertices = [(28800000, - 6600000), (- 5600000, 19200000), (63200000, 70800000)],
       ridge_points = [(0, 1), (0, 2), (1, 2), (0, 3), (1, 3), (2, 3)],
       ridge_vertices = [(- 1, 0), (0, 1), (0, 2), (- 1, 1), (- 1, 2), (1, 2)],
       regions = [[], [- 1, 0, 1], [- 1, 0, 2], [0, 1, 2], [- 1, 1, 2]] \<rparr>"

text \<open>The same four points two hundred thousand times smaller: every vertex is within
  the bound.\<close>

definition small_diagram :: voronoi where
  "small_diagram =
     \<lparr> points = [(0, 0), (288, 0), (72, 96), (0, 192)],
       vertices = [(144, - 33), (- 28, 96), (316, 354)],
       ridge_points = [(0, 1), (0, 2), (1, 2), (0, 3), (1, 3), (2, 3)],
       ridge_vertices = [(- 1, 0), (0, 1), (0, 2), (- 1, 1), (- 1, 2), (1, 2)],
       regions = [[], [- 1, 0, 1], [- 1, 0, 2], [0, 1, 2], [- 1, 1, 2]] \<rparr>"

text \<open>
  The Voronoi diagram of the seven points of the docstring of
  \<open>create_links_and_faces_from_voronoi_diagram\<close>: point 3 is surrounded by the other six,
  and the six vertices are the circumcentres of the six triangles around it. The ridges
  are listed in the order, and with the orientation, of the documented arrays.
\<close>

definition docstring_diagram :: voronoi where
  "docstring_diagram =
     \<lparr> points = [(0, 0), (1, 0), (- 1 / 2, 87 / 100), (1 / 2, 87 / 100), (3 / 2, 87 / 100),
                 (0, 173 / 100), (1, 173 / 100)],
       vertices = [(1 / 2, 5069 / 17400), (1, 10069 / 17400), (1, 993 / 860),
                   (1 / 2, 1243 / 860), (0, 993 / 860), (0, 10069 / 17400)],
       ridge_points = [(0, 1), (0, 2), (0, 3), (1, 3), (1, 4), (2, 3), (3, 4), (2, 5), (3, 5),
                       (6, 3), (6, 4), (6, 5)],
       ridge_vertices = [(- 1, 0), (- 1, 5), (5, 0), (0, 1), (- 1, 1), (5, 4), (1, 2), (- 1, 4),
                         (4, 3), (2, 3), (- 1, 2), (- 1, 3)],
       regions = [[], [- 1, 0, 5], [- 1, 0, 1], [- 1, 4, 5], [0, 1, 2, 3, 4, 5], [- 1, 1, 2],
                  [- 1, 3, 4], [- 1, 2, 3]] \<rparr>"

section \<open>voronoi.py: the patch table and its cache\<close>

text \<open>
  What the patch code takes from outside the sources here: the triangles (simplices) that
  \<open>scipy.spatial.Delaunay\<close> returns for an array of points, the constant
  \<open>BAD_INDEX_VALUE\<close> of \<open>landlab.grid.base\<close>, and the integer that numpy stores when an
  integer array is filled with \<open>numpy.nan\<close>.
\<close>

record backend =
  delaunay_simplices :: "(real \<times> real) list \<Rightarrow> int list list"
  BAD_INDEX_VALUE :: int
  nan_as_int :: int

text \<open>
  A \<open>VoronoiDelaunayGrid\<close> is a grid with the sorted points (\<open>self.pts\<close>), the Voronoi
  diagram (\<open>self.vor\<close>) and the attributes that the patch code creates on first use. An attribute that does not exist
  yet is \<open>None\<close> (for \<open>set_bad_value\<close>: \<open>False\<close>); reading it raises AttributeError.
\<close>

record voronoi_grid = grid +
  pts_attr :: "(real \<times> real) list"
  vor_attr :: voronoi
  nodes_at_patch_attr :: "int list list option"
  number_of_patches_attr :: "nat option"
  patches_at_node_attr :: "int list list option"
  set_bad_value :: bool

text \<open>The \<open>nodata\<close> argument: an integer or a string.\<close>

datatype nodata_arg = NodataInt int | NodataStr string

definition nodata_value :: "backend \<Rightarrow> nodata_arg \<Rightarrow> error + int" where
  "nodata_value be nodata =
     (if nodata = NodataInt (- 1) then Inr (- 1)
      else if nodata = NodataStr ''bad_value'' then Inr (BAD_INDEX_VALUE be)
      else if nodata = NodataStr ''nan'' then Inr (nan_as_int be)
      else Inl ValueError)"

text \<open>\<open>numpy.argwhere(numpy.equal(self._nodes_at_patch, i))[:, 0]\<close>: the number of each
  patch, once for every corner of it that is node \<open>i\<close>.\<close>

definition patches_with_node :: "int list list \<Rightarrow> int \<Rightarrow> int list" where
  "patches_with_node simplices i =
     concat (map (\<lambda>p. replicate (length (filter (\<lambda>n. n = i) (simplices ! p))) (int p))
               [0 ..< length simplices])"

text \<open>One row of the table: a closed boundary node (status 4) keeps a row of \<open>nodata\<close>;
  any other node gets its patches, followed by \<open>nodata\<close>. More patches than the row has
  columns do not fit (ValueError), except a single one into a row of no column.\<close>

definition patch_row :: "'a grid_scheme \<Rightarrow> int list list \<Rightarrow> nat \<Rightarrow> int \<Rightarrow> nat \<Rightarrow> error + int list" where
  "patch_row g simplices max_dimension nodata i =
     and_then (np_get (status_at_node g) (int i)) (\<lambda>status.
       if status \<noteq> 4 then
         (let pw = patches_with_node simplices (int i)
          in if length pw \<le> max_dimension
             then Inr (pw @ replicate (max_dimension - length pw) nodata)
             else if length pw = 1 then Inr (replicate max_dimension nodata)
             else Inl ValueError)
       else Inr (replicate max_dimension nodata))"

definition create_patches_from_delaunay_diagram ::
  "backend \<Rightarrow> voronoi_grid \<Rightarrow> (real \<times> real) list \<Rightarrow> voronoi \<Rightarrow> nodata_arg \<Rightarrow>
   error + voronoi_grid" where
  "create_patches_from_delaunay_diagram be g pts' vor' nodata =
     (if pts' \<noteq> points vor' then Inl AssertionError
      else
        and_then (nodata_value be nodata) (\<lambda>fill.
        let simplices = delaunay_simplices be pts';
            max_dimension = fold max (map length (regions vor')) 0
        in and_then (map_err (patch_row g simplices max_dimension fill)
                       [0 ..< number_of_nodes g]) (\<lambda>table.
             Inr (g\<lparr>nodes_at_patch_attr := Some simplices,
                    number_of_patches_attr := Some (length simplices),
                    patches_at_node_attr := Some table\<rparr>))))"

text \<open>
  \<open>patches_at_node\<close> returns the table and the grid with its new attributes. With
  \<open>nodata == -1\<close> the table is built only if \<open>_patches_at_node\<close> does not exist; with any
  other \<open>nodata\<close> it is built only if \<open>set_bad_value\<close> does not exist, and otherwise the
  table that exists is returned.
\<close>

definition cached_patches :: "voronoi_grid \<Rightarrow> error + (int list list \<times> voronoi_grid)" where
  "cached_patches g =
     (case patches_at_node_attr g of None \<Rightarrow> Inl AttributeError | Some t \<Rightarrow> Inr (t, g))"

definition patches_at_node ::
  "backend \<Rightarrow> voronoi_grid \<Rightarrow> nodata_arg \<Rightarrow> error + (int list list \<times> voronoi_grid)" where
  "patches_at_node be g nodata =
     (if nodata = NodataInt (- 1) then
        (case patches_at_node_attr g of
           Some t \<Rightarrow> Inr (t, g)
         | None \<Rightarrow>
             and_then (create_patches_from_delaunay_diagram be g (pts_attr g) (vor_attr g) nodata)
               cached_patches)
      else if set_bad_value g then cached_patches g
      else
        and_then (create_patches_from_delaunay_diagram be g (pts_attr g) (vor_attr g) nodata)
          (\<lambda>g'. cached_patches (g'\<lparr>set_bad_value := True\<rparr>)))"

section \<open>Grids of the doctests\<close>

text \<open>
  The tables of \<open>RasterModelGrid((3, 4))\<close>, the grid of the doctests in mappers.py, with
  its default boundary (perimeter nodes have status 1, a fixed value; the two interior
  nodes are core). Links are numbered row by row, the horizontal links of a row before
  the vertical links above it; a node's links are listed east, north, west, south, with
  \<open>-1\<close> for a link that is absent, and direction \<open>-1\<close> for a link that leaves the node,
  \<open>1\<close> for one that enters it, \<open>0\<close> for none. Row 0 of the inlink and outlink matrices
  holds the vertical active links, row 1 the horizontal ones. The node fields are those
  of the doctests of \<open>map_value_at_min_node_to_link\<close>.
\<close>

definition raster_3x4 :: grid where
  "raster_3x4 =
     \<lparr> number_of_nodes = 12,
       number_of_links = 17,
       number_of_active_links = 7,
       node_x = [0, 1, 2, 3, 0, 1, 2, 3, 0, 1, 2, 3],
       node_y = [0, 0, 0, 0, 1, 1, 1, 1, 2, 2, 2, 2],
       status_at_node = [1, 1, 1, 1, 1, 0, 0, 1, 1, 1, 1, 1],
       node_at_link_tail = [0, 1, 2, 0, 1, 2, 3, 4, 5, 6, 4, 5, 6, 7, 8, 9, 10],
       node_at_link_head = [1, 2, 3, 4, 5, 6, 7, 5, 6, 7, 8, 9, 10, 11, 9, 10, 11],
       links_at_node =
         [[0, 3, -1, -1],
          [1, 4, 0, -1],
          [2, 5, 1, -1],
          [-1, 6, 2, -1],
          [7, 10, -1, 3],
          [8, 11, 7, 4],
          [9, 12, 8, 5],
          [-1, 13, 9, 6],
          [14, -1, -1, 10],
          [15, -1, 14, 11],
          [16, -1, 15, 12],
          [-1, -1, 16, 13]],
       link_dirs_at_node =
         [[-1, -1, 0, 0],
          [-1, -1, 1, 0],
          [-1, -1, 1, 0],
          [0, -1, 1, 0],
          [-1, -1, 0, 1],
          [-1, -1, 1, 1],
          [-1, -1, 1, 1],
          [0, -1, 1, 1],
          [-1, 0, 0, 1],
          [-1, 0, 1, 1],
          [-1, 0, 1, 1],
          [0, 0, 1, 1]],
       face_width = [1, 1, 1, 1, 1, 1, 1],
       node_active_inlink_matrix =
         [[-1, -1, -1, -1, -1, 0, 1, -1, -1, 5, 6, -1],
          [-1, -1, -1, -1, -1, 2, 3, 4, -1, -1, -1, -1]],
       node_active_outlink_matrix =
         [[-1, 0, 1, -1, -1, 5, 6, -1, -1, -1, -1, -1],
          [-1, -1, -1, -1, 2, 3, 4, -1, -1, -1, -1, -1]],
       node_at_cell = [5, 6],
       core_cells = [0, 1],
       area_of_cell = [1, 1],
       at_node = [''z'' \<mapsto> [0, 1, 2, 3, 7, 6, 5, 4, 8, 9, 10, 11],
                  ''vals_to_map'' \<mapsto> [0, 10, 20, 30, 70, 60, 50, 40, 80, 90, 100, 110]],
       at_link = Map.empty \<rparr>"

text \<open>
  The same grid after every perimeter node has been closed (status 4): the only active
  link left joins the core nodes 5 and 6, and it has the only face.
\<close>

definition raster_3x4_closed :: grid where
  "raster_3x4_closed =
     raster_3x4
     \<lparr> number_of_active_links := 1,
       status_at_node := [4, 4, 4, 4, 4, 0, 0, 4, 4, 4, 4, 4],
       face_width := [1],
       node_active_inlink_matrix :=
         [[-1, -1, -1, -1, -1, -1, -1, -1, -1, -1, -1, -1],
          [-1, -1, -1, -1, -1, -1, 0, -1, -1, -1, -1, -1]],
       node_active_outlink_matrix :=
         [[-1, -1, -1, -1, -1, -1, -1, -1, -1, -1, -1, -1],
          [-1, -1, -1, -1, -1, 0, -1, -1, -1, -1, -1, -1]] \<rparr>"

text \<open>
  \<open>RasterModelGrid((4, 5))\<close>, the grid of the doctest of
  \<open>calculate_flux_divergence_at_nodes\<close>: 20 nodes, 6 of them core, 17 active links.
\<close>

definition raster_4x5 :: grid where
  "raster_4x5 =
     \<lparr> number_of_nodes = 20,
       number_of_links = 31,
       number_of_active_links = 17,
       node_x = [0, 1, 2, 3, 4, 0, 1, 2, 3, 4, 0, 1, 2, 3, 4, 0, 1, 2, 3, 4],
       node_y = [0, 0, 0, 0, 0, 1, 1, 1, 1, 1, 2, 2, 2, 2, 2, 3, 3, 3, 3, 3],
       status_at_node = [1, 1, 1, 1, 1, 1, 0, 0, 0, 1, 1, 0, 0, 0, 1, 1, 1, 1, 1, 1],
       node_at_link_tail = [0, 1, 2, 3, 0, 1, 2, 3, 4, 5, 6, 7, 8, 5, 6, 7, 8, 9, 10, 11, 12, 13, 10, 11, 12, 13, 14, 15, 16, 17, 18],
       node_at_link_head = [1, 2, 3, 4, 5, 6, 7, 8, 9, 6, 7, 8, 9, 10, 11, 12, 13, 14, 11, 12, 13, 14, 15, 16, 17, 18, 19, 16, 17, 18, 19],
       links_at_node =
         [[0, 4, -1, -1],
          [1, 5, 0, -1],
          [2, 6, 1, -1],
          [3, 7, 2, -1],
          [-1, 8, 3, -1],
          [9, 13, -1, 4],
          [10, 14, 9, 5],
          [11, 15, 10, 6],
          [12, 16, 11, 7],
          [-1, 17, 12, 8],
          [18, 22, -1, 13],
          [19, 23, 18, 14],
          [20, 24, 19, 15],
          [21, 25, 20, 16],
          [-1, 26, 21, 17],
          [27, -1, -1, 22],
          [28, -1, 27, 23],
          [29, -1, 28, 24],
          [30, -1, 29, 25],
          [-1, -1, 30, 26]],
       link_dirs_at_node =
         [[-1, -1, 0, 0],
          [-1, -1, 1, 0],
          [-1, -1, 1, 0],
          [-1, -1, 1, 0],
          [0, -1, 1, 0],
          [-1, -1, 0, 1],
          [-1, -1, 1, 1],
          [-1, -1, 1, 1],
          [-1, -1, 1, 1],
          [0, -1, 1, 1],
          [-1, -1, 0, 1],
          [-1, -1, 1, 1],
          [-1, -1, 1, 1],
          [-1, -1, 1, 1],
          [0, -1, 1, 1],
          [-1, 0, 0, 1],
          [-1, 0, 1, 1],
          [-1, 0, 1, 1],
          [-1, 0, 1, 1],
          [0, 0, 1, 1]],
       face_width = [1, 1, 1, 1, 1, 1, 1, 1, 1, 1, 1, 1, 1, 1, 1, 1, 1],
       node_active_inlink_matrix =
         [[-1, -1, -1, -1, -1, -1, 0, 1, 2, -1, -1, 7, 8, 9, -1, -1, 14, 15, 16, -1],
          [-1, -1, -1, -1, -1, -1, 3, 4, 5, 6, -1, 10, 11, 12, 13, -1, -1, -1, -1, -1]],
       node_active_outlink_matrix =
         [[-1, 0, 1, 2, -1, -1, 7, 8, 9, -1, -1, 14, 15, 16, -1, -1, -1, -1, -1, -1],
          [-1, -1, -1, -1, -1, 3, 4, 5, 6, -1, 10, 11, 12, 13, -1, -1, -1, -1, -1, -1]],
       node_at_cell = [6, 7, 8, 11, 12, 13],
       core_cells = [0, 1, 2, 3, 4, 5],
       area_of_cell = [1, 1, 1, 1, 1, 1],
       at_node = Map.empty,
       at_link = Map.empty \<rparr>"

text \<open>
  \<open>RasterModelGrid((3, 3))\<close>: node 4 is the only core node and has all four links.
\<close>

definition raster_3x3 :: grid where
  "raster_3x3 =
     \<lparr> number_of_nodes = 9,
       number_of_links = 12,
       number_of_active_links = 4,
       node_x = [0, 1, 2, 0, 1, 2, 0, 1, 2],
       node_y = [0, 0, 0, 1, 1, 1, 2, 2, 2],
       status_at_node = [1, 1, 1, 1, 0, 1, 1, 1, 1],
       node_at_link_tail = [0, 1, 0, 1, 2, 3, 4, 3, 4, 5, 6, 7],
       node_at_link_head = [1, 2, 3, 4, 5, 4, 5, 6, 7, 8, 7, 8],
       links_at_node =
         [[0, 2, -1, -1],
          [1, 3, 0, -1],
          [-1, 4, 1, -1],
          [5, 7, -1, 2],
          [6, 8, 5, 3],
          [-1, 9, 6, 4],
          [10, -1, -1, 7],
          [11, -1, 10, 8],
          [-1, -1, 11, 9]],
       link_dirs_at_node =
         [[-1, -1, 0, 0],
          [-1, -1, 1, 0],
          [0, -1, 1, 0],
          [-1, -1, 0, 1],
          [-1, -1, 1, 1],
          [0, -1, 1, 1],
          [-1, 0, 0, 1],
          [-1, 0, 1, 1],
          [0, 0, 1, 1]],
       face_width = [1, 1, 1, 1],
       node_active_inlink_matrix =
         [[-1, -1, -1, -1, 0, -1, -1, 3, -1],
          [-1, -1, -1, -1, 1, 2, -1, -1, -1]],
       node_active_outlink_matrix =
         [[-1, 0, -1, -1, 3, -1, -1, -1, -1],
          [-1, -1, -1, 1, 2, -1, -1, -1, -1]],
       node_at_cell = [4],
       core_cells = [0],
       area_of_cell = [1],
       at_node = Map.empty,
       at_link = Map.empty \<rparr>"

text \<open>The 3 by 4 raster grid with every second link written head first.\<close>

definition raster_3x4_reversed :: grid where
  "raster_3x4_reversed =
     raster_3x4
     \<lparr> node_at_link_tail := [1, 1, 3, 0, 5, 2, 7, 4, 6, 6, 8, 5, 10, 7, 9, 9, 11],
       node_at_link_head := [0, 2, 2, 4, 1, 6, 3, 5, 5, 7, 4, 9, 6, 11, 8, 10, 10] \<rparr>"

text \<open>
  The grid of the four points of \<open>small_diagram\<close>, freshly constructed: node 2 is the
  core node, with the triangle of the three Voronoi vertices as its cell; the six links
  are numbered as the ridges and point into the upper right; the three links of node 2
  are active. No patch attribute exists yet. The back end gives the three Delaunay
  triangles around node 2.
\<close>

definition four_point_grid :: voronoi_grid where
  "four_point_grid =
     \<lparr> number_of_nodes = 4,
       number_of_links = 6,
       number_of_active_links = 3,
       node_x = [0, 288, 72, 0],
       node_y = [0, 0, 96, 192],
       status_at_node = [1, 1, 0, 1],
       node_at_link_tail = [0, 0, 2, 0, 3, 2],
       node_at_link_head = [1, 2, 1, 3, 1, 3],
       links_at_node = [[0, 1, 3], [0, 2, 4], [1, 2, 5], [3, 4, 5]],
       link_dirs_at_node = [[-1, -1, -1], [1, 1, 1], [1, -1, -1], [1, -1, 1]],
       face_width = [215, sqrt 179353, 430],
       node_active_inlink_matrix = [[-1, 1, 0, 2], [-1, -1, -1, -1]],
       node_active_outlink_matrix = [[0, -1, 1, -1], [-1, -1, 2, -1]],
       node_at_cell = [2],
       core_cells = [0],
       area_of_cell = [44376],
       at_node = Map.empty,
       at_link = Map.empty,
       pts_attr = [(0, 0), (288, 0), (72, 96), (0, 192)],
       vor_attr = small_diagram,
       nodes_at_patch_attr = None,
       number_of_patches_attr = None,
       patches_at_node_attr = None,
       set_bad_value = False \<rparr>"

definition four_point_backend :: backend where
  "four_point_backend =
     \<lparr> delaunay_simplices = (\<lambda>p. [[2, 0, 1], [2, 3, 0], [2, 1, 3]]),
       BAD_INDEX_VALUE = 2147483647,
       nan_as_int = - 9223372036854775808 \<rparr>"

text \<open>The same grid after \<open>patches_at_node('nan')\<close> has been called on it once.\<close>

definition four_point_grid_nan :: voronoi_grid where
  "four_point_grid_nan =
     four_point_grid
     \<lparr> nodes_at_patch_attr := Some [[2, 0, 1], [2, 3, 0], [2, 1, 3]],
       number_of_patches_attr := Some 3,
       patches_at_node_attr :=
         Some [[0, 1, - 9223372036854775808], [0, 2, - 9223372036854775808], [0, 1, 2],
               [1, 2, - 9223372036854775808]],
       set_bad_value := True \<rparr>"

section \<open>Facts about the array primitives\<close>

lemma and_then_Inl [simp]: "and_then (Inl e) f = Inl e"
  by (simp add: and_then_def)

lemma and_then_Inr [simp]: "and_then (Inr v) f = f v"
  by (simp add: and_then_def)

lemma and_then_eq_Inr:
  "and_then m f = Inr r \<longleftrightarrow> (\<exists>v. m = Inr v \<and> f v = Inr r)"
  by (cases m) simp_all

lemma np_take_length: "np_take xs js = Inr vs \<Longrightarrow> length vs = length js"
  by (induction js arbitrary: vs) (auto simp: and_then_eq_Inr)

lemma np_take_nth:
  "np_take xs js = Inr vs \<Longrightarrow> k < length js \<Longrightarrow> np_get xs (js ! k) = Inr (vs ! k)"
proof (induction js arbitrary: vs k)
  case Nil
  then show ?case by simp
next
  case (Cons j js)
  then obtain v ws where v: "np_get xs j = Inr v" and ws: "np_take xs js = Inr ws"
    and vs: "vs = v # ws"
    by (auto simp: and_then_eq_Inr)
  show ?case
  proof (cases k)
    case 0
    then show ?thesis using v vs by simp
  next
    case (Suc k')
    then show ?thesis using Cons.IH [OF ws, of k'] Cons.prems(2) vs by simp
  qed
qed

lemma np_get_valid: "0 \<le> j \<Longrightarrow> j < int (length xs) \<Longrightarrow> np_get xs j = Inr (xs ! nat j)"
  by (simp add: np_get_def np_valid_def np_at_def np_pos_def)

lemma np_take_valid:
  "\<forall>j \<in> set js. 0 \<le> j \<and> j < int (length xs) \<Longrightarrow>
   np_take xs js = Inr (map (\<lambda>j. xs ! nat j) js)"
  by (induction js) (simp_all add: np_get_valid)

lemma np_binop_same: "length xs = length ys \<Longrightarrow> np_binop f xs ys = Inr (map2 f xs ys)"
  by (simp add: np_binop_def)

lemma np_where_same:
  "length c = length a \<Longrightarrow> length a = length b \<Longrightarrow>
   np_where c a b = Inr (map2 (\<lambda>t p. if t then fst p else snd p) c (zip a b))"
  by (simp add: np_where_def np_binop_same)

lemma np_store_same: "length vs = n \<Longrightarrow> np_store n vs = Inr vs"
  by (simp add: np_store_def)

lemma np_get_np_at: "np_valid (length xs) i \<Longrightarrow> np_get xs i = Inr (np_at xs i)"
  by (simp add: np_get_def)

lemma np_take_np_at:
  "\<forall>i \<in> set js. np_valid (length xs) i \<Longrightarrow> np_take xs js = Inr (map (np_at xs) js)"
  by (induction js) (simp_all add: np_get_np_at)

lemma np_get_nat: "i < length xs \<Longrightarrow> np_get xs (int i) = Inr (xs ! i)"
  by (simp add: np_get_def np_valid_def np_at_def np_pos_def)

lemma np_at_map: "np_valid (length xs) l \<Longrightarrow> np_at (map f xs) l = f (np_at xs l)"
  by (auto simp: np_at_def np_pos_def np_valid_def)

lemma np_put_distinct:
  assumes "length js = length vs" "\<forall>j \<in> set js. 0 \<le> j \<and> j < int (length xs)" "distinct js"
  shows "\<exists>ys. np_put xs js vs = Inr ys \<and> length ys = length xs \<and>
           (\<forall>k < length js. ys ! nat (js ! k) = vs ! k) \<and>
           (\<forall>m < length xs. int m \<notin> set js \<longrightarrow> ys ! m = xs ! m)"
  using assms
proof (induction js vs arbitrary: xs rule: list_induct2)
  case Nil
  then show ?case by simp
next
  case (Cons j js v vs)
  let ?xs = "xs[nat j := v]"
  from Cons.prems have j: "0 \<le> j" "j < int (length xs)" and jn: "j \<notin> set js"
    and rest: "\<forall>i \<in> set js. 0 \<le> i \<and> i < int (length ?xs)" and d: "distinct js"
    by auto
  from Cons.IH [OF rest d] obtain ys where ys: "np_put ?xs js vs = Inr ys"
    and ly: "length ys = length ?xs"
    and hit: "\<forall>k < length js. ys ! nat (js ! k) = vs ! k"
    and miss: "\<forall>m < length ?xs. int m \<notin> set js \<longrightarrow> ys ! m = ?xs ! m"
    by blast
  have put: "np_put xs (j # js) (v # vs) = Inr ys"
    using j ys by (simp add: np_valid_def np_pos_def)
  have at_j: "ys ! nat j = v"
    using miss j jn by (auto dest!: spec [where x = "nat j"])
  have hit': "\<forall>k < length (j # js). ys ! nat ((j # js) ! k) = (v # vs) ! k"
  proof (intro allI impI)
    fix k assume "k < length (j # js)"
    then show "ys ! nat ((j # js) ! k) = (v # vs) ! k"
      using at_j hit by (cases k) auto
  qed
  have miss': "\<forall>m < length xs. int m \<notin> set (j # js) \<longrightarrow> ys ! m = xs ! m"
  proof (intro allI impI)
    fix m assume m: "m < length xs" and "int m \<notin> set (j # js)"
    then have "int m \<notin> set js" and "m \<noteq> nat j" using j by auto
    then show "ys ! m = xs ! m" using miss m by simp
  qed
  show ?case using put ly hit' miss' by simp
qed

lemma sum_list_index: "(\<Sum>i\<leftarrow>[0 ..< length xs]. f (xs ! i)) = (\<Sum>x\<leftarrow>xs. f x)"
proof -
  have "map (\<lambda>i. f (xs ! i)) [0 ..< length xs] = map f (map (\<lambda>i. xs ! i) [0 ..< length xs])"
    by simp
  then show ?thesis by (simp only: map_nth)
qed

lemmas np_eval = np_get_def np_valid_def np_at_def np_pos_def np_binop_def np_where_def np_store_def np_store_exact_def
  out_length_def field_values_def np_take2_def np_binop2_def np_amax_def

lemma np_put_filter:
  assumes lx: "length xs = n" and ly: "length ys = n"
  shows "np_put xs (map int (filter P [0 ..< n])) (map (\<lambda>i. ys ! i) (filter P [0 ..< n])) =
         Inr (map (\<lambda>i. if P i then ys ! i else xs ! i) [0 ..< n])"
proof -
  let ?sel = "filter P [0 ..< n]"
  let ?js = "map int ?sel" and ?vs = "map (\<lambda>i. ys ! i) ?sel"
  have d: "distinct ?js" by (simp add: distinct_map)
  have r: "\<forall>j \<in> set ?js. 0 \<le> j \<and> j < int (length xs)" using lx by auto
  have l: "length ?js = length ?vs" by simp
  from np_put_distinct [OF l r d] obtain zs where zs: "np_put xs ?js ?vs = Inr zs"
    and lz: "length zs = length xs"
    and hit: "\<forall>k < length ?js. zs ! nat (?js ! k) = ?vs ! k"
    and miss: "\<forall>m < length xs. int m \<notin> set ?js \<longrightarrow> zs ! m = xs ! m"
    by blast
  have "zs = map (\<lambda>i. if P i then ys ! i else xs ! i) [0 ..< n]"
  proof (rule nth_equalityI)
    show "length zs = length (map (\<lambda>i. if P i then ys ! i else xs ! i) [0 ..< n])"
      using lz lx by simp
  next
    fix m assume "m < length zs"
    then have m: "m < n" using lz lx by simp
    show "zs ! m = map (\<lambda>i. if P i then ys ! i else xs ! i) [0 ..< n] ! m"
    proof (cases "P m")
      case True
      then have "m \<in> set ?sel" using m by simp
      then obtain k where k: "k < length ?sel" "?sel ! k = m"
        unfolding in_set_conv_nth by blast
      from hit k(1) have "zs ! nat (?js ! k) = ?vs ! k" by simp
      then have "zs ! m = ys ! m" using k by simp
      then show ?thesis using True m by simp
    next
      case False
      then have "int m \<notin> set ?js" by auto
      then show ?thesis using miss m lx False by simp
    qed
  qed
  then show ?thesis using zs by simp
qed

lemma map_err_all:
  "(\<And>x. x \<in> set xs \<Longrightarrow> f x = Inr (h x)) \<Longrightarrow> map_err f xs = Inr (map h xs)"
  by (induction xs) simp_all

lemma fold_max_Max: "fold max xs (x::real) = Max (set (x # xs))"
proof (induction xs arbitrary: x)
  case Nil
  then show ?case by simp
next
  case (Cons y ys)
  have "Max (set (x # y # ys)) = Max (set (max x y # ys))"
    by (cases "ys = []") (auto simp: max.assoc max.commute max.left_commute)
  then show ?case using Cons.IH [of "max y x"] by (simp add: max.commute)
qed

section \<open>Flux divergence: what the loop and the division compute\<close>

lemma flux_rows_sum:
  assumes "\<forall>i \<in> set rows. i < length outm \<and> i < length inm \<and>
             length (outm ! i) = length net \<and> length (inm ! i) = length net \<and>
             (\<forall>l \<in> set (outm ! i) \<union> set (inm ! i). np_valid (length flux) l)"
  shows "flux_rows flux outm inm rows net =
         Inr (map (\<lambda>n. net ! n +
                (\<Sum>i\<leftarrow>rows. np_at flux (outm ! i ! n) - np_at flux (inm ! i ! n)))
              [0 ..< length net])"
  using assms
proof (induction rows arbitrary: net)
  case Nil
  show ?case by (simp add: map_nth)
next
  case (Cons i rows)
  let ?fo = "map (np_at flux) (outm ! i)" and ?fi = "map (np_at flux) (inm ! i)"
  let ?net1 = "map2 (+) net ?fo"
  let ?net2 = "map2 (-) ?net1 ?fi"
  from Cons.prems have i: "i < length outm" "i < length inm"
    and lo: "length (outm ! i) = length net" and li: "length (inm ! i) = length net"
    and vo: "\<forall>l \<in> set (outm ! i). np_valid (length flux) l"
    and vi: "\<forall>l \<in> set (inm ! i). np_valid (length flux) l"
    by auto
  have len2: "length ?net2 = length net" using lo li by simp
  have rest: "\<forall>i \<in> set rows. i < length outm \<and> i < length inm \<and>
             length (outm ! i) = length ?net2 \<and> length (inm ! i) = length ?net2 \<and>
             (\<forall>l \<in> set (outm ! i) \<union> set (inm ! i). np_valid (length flux) l)"
    using Cons.prems len2 by simp
  have step: "flux_rows flux outm inm (i # rows) net = flux_rows flux outm inm rows ?net2"
    using i lo li
    by (simp add: np_get_nat np_take_np_at [OF vo] np_take_np_at [OF vi] np_binop_same
        np_store_same)
  show ?case
    unfolding step Cons.IH [OF rest] len2
    by (rule arg_cong [where f = Inr], rule nth_equalityI) (simp_all add: lo li algebra_simps)
qed

lemma flux_divergence_value:
  assumes ok: "flux_tables_ok g"
    and len: "length flux = number_of_active_links g"
    and out: "out_length (number_of_nodes g) out = number_of_nodes g"
  shows "\<exists>res. calculate_flux_divergence_at_nodes g flux out = Inr res \<and>
           length res = number_of_nodes g \<and>
           (\<forall>k < length (core_cells g).
              res ! nat (core_cell_nodes g ! k) =
              net_flux g flux (nat (core_cell_nodes g ! k)) / area_of_cell g ! nat (core_cells g ! k)) \<and>
           (\<forall>n < number_of_nodes g. int n \<notin> set (core_cell_nodes g) \<longrightarrow> res ! n = net_flux g flux n)"
proof -
  let ?N = "number_of_nodes g" and ?inm = "node_active_inlink_matrix g"
    and ?outm = "node_active_outlink_matrix g"
  let ?buf = "map2 (*) flux (face_width g) @ [0]"
  let ?net = "map (net_flux g flux) [0 ..< ?N]"
  let ?idx = "core_cell_nodes g"
  let ?vals = "map (\<lambda>n. ?net ! nat n) ?idx"
  let ?areas = "map (\<lambda>c. area_of_cell g ! nat c) (core_cells g)"
  from ok have fw: "length (face_width g) = number_of_active_links g"
    and lm: "length ?outm = length ?inm"
    and rows: "\<forall>row \<in> set ?inm \<union> set ?outm. length row = ?N \<and>
                 (\<forall>l \<in> set row. - 1 \<le> l \<and> l < int (number_of_active_links g))"
    and la: "length (area_of_cell g) = length (node_at_cell g)"
    and cc: "\<forall>c \<in> set (core_cells g). 0 \<le> c \<and> c < int (length (node_at_cell g))"
    and nc: "\<forall>n \<in> set (node_at_cell g). 0 \<le> n \<and> n < int ?N"
    and dist: "distinct ?idx"
    by (simp_all add: flux_tables_ok_def)
  have lbuf: "length ?buf = Suc (number_of_active_links g)" using fw len by simp
  have loop_pre: "\<forall>i \<in> set [0 ..< length ?inm]. i < length ?outm \<and> i < length ?inm \<and>
             length (?outm ! i) = length (replicate ?N (0::real)) \<and>
             length (?inm ! i) = length (replicate ?N (0::real)) \<and>
             (\<forall>l \<in> set (?outm ! i) \<union> set (?inm ! i). np_valid (length ?buf) l)"
  proof
    fix i assume "i \<in> set [0 ..< length ?inm]"
    then have i: "i < length ?inm" "i < length ?outm" using lm by simp_all
    then have mem: "?inm ! i \<in> set ?inm \<union> set ?outm" "?outm ! i \<in> set ?inm \<union> set ?outm"
      by simp_all
    have "\<And>row l. row \<in> set ?inm \<union> set ?outm \<Longrightarrow> l \<in> set row \<Longrightarrow>
            np_valid (length ?buf) l"
      using rows unfolding lbuf np_valid_def by fastforce
    then show "i < length ?outm \<and> i < length ?inm \<and>
             length (?outm ! i) = length (replicate ?N (0::real)) \<and>
             length (?inm ! i) = length (replicate ?N (0::real)) \<and>
             (\<forall>l \<in> set (?outm ! i) \<union> set (?inm ! i). np_valid (length ?buf) l)"
      using i mem rows by (metis Un_iff length_replicate)
  qed
  have loop: "flux_rows ?buf ?outm ?inm [0 ..< length ?inm] (replicate ?N 0) = Inr ?net"
    unfolding flux_rows_sum [OF loop_pre]
    by (rule arg_cong [where f = Inr], rule nth_equalityI)
       (simp_all add: net_flux_def face_flux_def)
  have idx_rng: "\<forall>n \<in> set ?idx. 0 \<le> n \<and> n < int ?N"
    using cc nc by (auto simp: core_cell_nodes_def)
  have take1: "np_take (node_at_cell g) (core_cells g) = Inr ?idx"
    using cc by (simp add: np_take_valid core_cell_nodes_def)
  have take2: "np_take ?net ?idx = Inr ?vals"
    using idx_rng by (simp add: np_take_valid)
  have take3: "np_take (area_of_cell g) (core_cells g) = Inr ?areas"
    using cc la by (simp add: np_take_valid)
  have li: "length ?idx = length (core_cells g)" by (simp add: core_cell_nodes_def)
  have quot: "np_binop (/) ?vals ?areas = Inr (map2 (/) ?vals ?areas)"
    by (simp add: np_binop_same li)
  have run: "calculate_flux_divergence_at_nodes g flux out =
             np_put ?net ?idx (map2 (/) ?vals ?areas)"
    unfolding calculate_flux_divergence_at_nodes_def
    using len out fw
    by (simp add: np_binop_same np_store_same loop take1 take2 take3 quot)
  have put_pre: "length ?idx = length (map2 (/) ?vals ?areas)"
      "\<forall>j \<in> set ?idx. 0 \<le> j \<and> j < int (length ?net)"
    using idx_rng by (simp_all add: li)
  from np_put_distinct [OF put_pre dist] obtain res where
    res: "np_put ?net ?idx (map2 (/) ?vals ?areas) = Inr res"
    and lres: "length res = length ?net"
    and hit: "\<forall>k < length ?idx. res ! nat (?idx ! k) = map2 (/) ?vals ?areas ! k"
    and miss: "\<forall>m < length ?net. int m \<notin> set ?idx \<longrightarrow> res ! m = ?net ! m"
    by blast
  have a: "\<forall>k < length (core_cells g).
              res ! nat (?idx ! k) =
              net_flux g flux (nat (?idx ! k)) / area_of_cell g ! nat (core_cells g ! k)"
  proof (intro allI impI)
    fix k assume k: "k < length (core_cells g)"
    then have "?idx ! k \<in> set ?idx" using li by (metis nth_mem)
    then have "nat (?idx ! k) < ?N" using idx_rng by auto
    then show "res ! nat (?idx ! k) =
              net_flux g flux (nat (?idx ! k)) / area_of_cell g ! nat (core_cells g ! k)"
      using hit k li by simp
  qed
  have b: "\<forall>n < ?N. int n \<notin> set ?idx \<longrightarrow> res ! n = net_flux g flux n"
    using miss by simp
  show ?thesis using run res lres a b by simp
qed

lemma face_flux_uniform:
  assumes "length (face_width g) = na" "- 1 \<le> l" "l < int na"
  shows "face_flux g (replicate na q) l = q * face_width_at g l"
proof -
  have e: "map2 (*) (replicate na q) (face_width g) @ [0] = map ((*) q) (face_width g @ [0])"
    using assms(1) by (simp add: map2_map_map [symmetric] zip_replicate1 map_zip_map del: map2_map_map)
  have v: "np_valid (length (face_width g @ [0])) l"
    using assms by (simp add: np_valid_def)
  show ?thesis
    unfolding face_flux_def face_width_at_def e by (rule np_at_map [OF v])
qed

lemma net_flux_uniform:
  assumes ok: "flux_tables_ok g" and n: "n < number_of_nodes g"
  shows "net_flux g (replicate (number_of_active_links g) q) n =
         q * (outgoing_width g n - incoming_width g n)"
proof -
  let ?na = "number_of_active_links g" and ?inm = "node_active_inlink_matrix g"
    and ?outm = "node_active_outlink_matrix g"
  from ok have fw: "length (face_width g) = ?na"
    and lm: "length ?outm = length ?inm"
    and rows: "\<forall>row \<in> set ?inm \<union> set ?outm. length row = number_of_nodes g \<and>
                 (\<forall>l \<in> set row. - 1 \<le> l \<and> l < int ?na)"
    by (simp_all add: flux_tables_ok_def)
  have valid: "\<And>row. row \<in> set ?inm \<union> set ?outm \<Longrightarrow> - 1 \<le> row ! n \<and> row ! n < int ?na"
    using rows n by (metis nth_mem)
  have uni: "\<And>row. row \<in> set ?inm \<union> set ?outm \<Longrightarrow>
           face_flux g (replicate ?na q) (row ! n) = q * face_width_at g (row ! n)"
    using valid fw by (simp add: face_flux_uniform)
  have "net_flux g (replicate ?na q) n =
        (\<Sum>i\<leftarrow>[0 ..< length ?inm]. q * face_width_at g (?outm ! i ! n) - q * face_width_at g (?inm ! i ! n))"
    unfolding net_flux_def
    by (rule arg_cong [where f = sum_list], rule map_cong) (simp_all add: uni lm)
  also have "\<dots> = (\<Sum>i\<leftarrow>[0 ..< length ?outm]. q * face_width_at g (?outm ! i ! n)) -
                  (\<Sum>i\<leftarrow>[0 ..< length ?inm]. q * face_width_at g (?inm ! i ! n))"
    by (simp add: sum_list_subtractf lm)
  also have "\<dots> = (\<Sum>row\<leftarrow>?outm. q * face_width_at g (row ! n)) -
                  (\<Sum>row\<leftarrow>?inm. q * face_width_at g (row ! n))"
    by (simp only: sum_list_index [where f = "\<lambda>row. q * face_width_at g (row ! n)"])
  also have "\<dots> = q * (outgoing_width g n - incoming_width g n)"
    by (simp add: outgoing_width_def incoming_width_def sum_list_const_mult right_diff_distrib)
  finally show ?thesis .
qed

lemma tables_3x4_closed: "flux_tables_ok raster_3x4_closed"
  by (simp add: flux_tables_ok_def raster_3x4_closed_def raster_3x4_def core_cell_nodes_def)


text \<open>
  In exact arithmetic the divergence of a uniform flux \<open>q\<close> at the node of a core cell is
  \<open>q\<close> times the difference of the total widths of its outgoing and incoming faces, over
  the area. (The sums and products of the code are rounded, so this value, and whether
  it is zero, is only what the code approximates.)
\<close>

lemma uniform_flux_divergence_exact:
  assumes ok: "flux_tables_ok g"
    and k: "k < length (core_cells g)"
    and area: "area_of_cell g ! nat (core_cells g ! k) \<noteq> 0"
  shows "\<exists>res. calculate_flux_divergence_at_nodes g
                  (replicate (number_of_active_links g) q) None = Inr res \<and>
           res ! nat (core_cell_nodes g ! k) =
             q * (outgoing_width g (nat (core_cell_nodes g ! k)) -
                  incoming_width g (nat (core_cell_nodes g ! k)))
             / area_of_cell g ! nat (core_cells g ! k) \<and>
           (res ! nat (core_cell_nodes g ! k) = 0 \<longleftrightarrow>
              q = 0 \<or> outgoing_width g (nat (core_cell_nodes g ! k)) =
                       incoming_width g (nat (core_cell_nodes g ! k)))"
proof -
  let ?n = "nat (core_cell_nodes g ! k)"
  from flux_divergence_value [OF ok, of "replicate (number_of_active_links g) q" None]
  obtain res where run: "calculate_flux_divergence_at_nodes g
                  (replicate (number_of_active_links g) q) None = Inr res"
    and val: "\<forall>k < length (core_cells g).
              res ! nat (core_cell_nodes g ! k) =
              net_flux g (replicate (number_of_active_links g) q) (nat (core_cell_nodes g ! k))
                / area_of_cell g ! nat (core_cells g ! k)"
    by (auto simp: out_length_def)
  from ok have cc: "\<forall>c \<in> set (core_cells g). 0 \<le> c \<and> c < int (length (node_at_cell g))"
    and nc: "\<forall>n \<in> set (node_at_cell g). 0 \<le> n \<and> n < int (number_of_nodes g)"
    by (simp_all add: flux_tables_ok_def)
  have "core_cells g ! k \<in> set (core_cells g)" using k by simp
  then have "nat (core_cells g ! k) < length (node_at_cell g)" using cc by auto
  then have "node_at_cell g ! nat (core_cells g ! k) \<in> set (node_at_cell g)" by simp
  then have n: "?n < number_of_nodes g"
    using nc k by (auto simp: core_cell_nodes_def)
  have eq: "res ! ?n = q * (outgoing_width g ?n - incoming_width g ?n)
             / area_of_cell g ! nat (core_cells g ! k)"
    using val k net_flux_uniform [OF ok n] by simp
  show ?thesis using run eq area by auto
qed


section \<open>Mappers: the doctests, and the value mapped to each link\<close>

text \<open>The model gives the arrays that the doctests of mappers.py document.\<close>

lemma doctest_map_value_at_min_node_to_link:
  "map_value_at_min_node_to_link raster_3x4 (Name ''z'') (Name ''vals_to_map'') None
   = Inr [0, 10, 20, 0, 10, 20, 30, 60, 50, 40, 70, 60, 50, 40, 80, 90, 100]"
  by (simp add: map_value_at_min_node_to_link_def raster_3x4_def np_eval)

lemma doctest_map_value_at_max_node_to_link:
  "map_value_at_max_node_to_link raster_3x4 (Name ''z'') (Name ''vals_to_map'') None
   = Inr [10, 20, 30, 70, 60, 50, 40, 70, 60, 50, 80, 90, 100, 110, 90, 100, 110]"
  by (simp add: map_value_at_max_node_to_link_def raster_3x4_def np_eval)

lemma doctest_map_upwind_node_link_max_to_node:
  "map_upwind_node_link_max_to_node raster_3x4
     (Array [-1, -2, -1, 0, 0, 0, 0, -1, -2, -1, 0, 0, 0, 0, -1, -2, -1]) None
   = Inr [0, 1, 2, 1, 0, 1, 2, 1, 0, 1, 2, 1]"
  by (simp add: map_upwind_node_link_max_to_node_def vals_in_positive_def raster_3x4_def np_eval)

lemma doctest_map_upwind_node_link_mean_to_node:
  "map_upwind_node_link_mean_to_node raster_3x4
     (Array [-1, -2, -1, -2, -3, -4, -5, -1, -2, -1, -1, -2, -3, -4, -1, -2, -1]) None
   = Inr [0, 1, 2, 1, 2, 2, 3, 3, 1, 3/2, 5/2, 5/2]"
  by (simp add: map_upwind_node_link_mean_to_node_def vals_in_positive_def raster_3x4_def np_eval
      row_total_def row_count_def divide_nan_to_zero_def)

lemma min_node_value:
  assumes ok: "links_ok g"
    and c: "field_values (at_node g) control_name = Inr control"
    and v: "field_values (at_node g) value_name = Inr vals"
    and lc: "length control = number_of_nodes g"
    and lv: "length vals = number_of_nodes g"
    and out: "out_length (number_of_links g) out = number_of_links g"
  shows "map_value_at_min_node_to_link g control_name value_name out =
         Inr (map2 (\<lambda>t h. if control ! nat t < control ! nat h then vals ! nat t else vals ! nat h)
               (node_at_link_tail g) (node_at_link_head g))"
proof -
  let ?t = "node_at_link_tail g" and ?h = "node_at_link_head g"
  have len: "length ?t = number_of_links g" "length ?h = number_of_links g"
    using ok by (simp_all add: links_ok_def)
  have rng: "\<forall>j \<in> set ?t. 0 \<le> j \<and> j < int (number_of_nodes g)"
      "\<forall>j \<in> set ?h. 0 \<le> j \<and> j < int (number_of_nodes g)"
    using ok by (auto simp: links_ok_def)
  have t1: "np_take control ?t = Inr (map (\<lambda>j. control ! nat j) ?t)"
    and t2: "np_take control ?h = Inr (map (\<lambda>j. control ! nat j) ?h)"
    and t3: "np_take vals ?t = Inr (map (\<lambda>j. vals ! nat j) ?t)"
    and t4: "np_take vals ?h = Inr (map (\<lambda>j. vals ! nat j) ?h)"
    using rng lc lv by (simp_all add: np_take_valid)
  show ?thesis
    unfolding map_value_at_min_node_to_link_def
    apply (simp add: c v t1 t2 t3 t4 np_binop_same np_where_same len np_store_same out)
    apply (rule nth_equalityI)
     apply (simp_all add: len)
    done
qed

lemma max_node_value:
  assumes ok: "links_ok g"
    and c: "field_values (at_node g) control_name = Inr control"
    and v: "field_values (at_node g) value_name = Inr vals"
    and lc: "length control = number_of_nodes g"
    and lv: "length vals = number_of_nodes g"
    and out: "out_length (number_of_links g) out = number_of_links g"
  shows "map_value_at_max_node_to_link g control_name value_name out =
         Inr (map2 (\<lambda>t h. if control ! nat t > control ! nat h then vals ! nat t else vals ! nat h)
               (node_at_link_tail g) (node_at_link_head g))"
proof -
  let ?t = "node_at_link_tail g" and ?h = "node_at_link_head g"
  have len: "length ?t = number_of_links g" "length ?h = number_of_links g"
    using ok by (simp_all add: links_ok_def)
  have rng: "\<forall>j \<in> set ?t. 0 \<le> j \<and> j < int (number_of_nodes g)"
      "\<forall>j \<in> set ?h. 0 \<le> j \<and> j < int (number_of_nodes g)"
    using ok by (auto simp: links_ok_def)
  have t1: "np_take control ?t = Inr (map (\<lambda>j. control ! nat j) ?t)"
    and t2: "np_take control ?h = Inr (map (\<lambda>j. control ! nat j) ?h)"
    and t3: "np_take vals ?t = Inr (map (\<lambda>j. vals ! nat j) ?t)"
    and t4: "np_take vals ?h = Inr (map (\<lambda>j. vals ! nat j) ?h)"
    using rng lc lv by (simp_all add: np_take_valid)
  show ?thesis
    unfolding map_value_at_max_node_to_link_def
    apply (simp add: c v t1 t2 t3 t4 np_binop_same np_where_same len np_store_same out)
    apply (rule nth_equalityI)
     apply (simp_all add: len)
    done
qed

text \<open>The upwind mean and maximum at a node, from the node's row of entries: the mean is
  0 where no entry is positive and (in exact arithmetic) the mean of the positive
  entries otherwise; the maximum is the largest entry, whatever its sign.\<close>

lemma vals_in_positive_value:
  assumes ok: "node_links_ok g var"
  shows "vals_in_positive g var = Inr (map (upwind_entries g var) [0 ..< number_of_nodes g])"
proof -
  let ?N = "number_of_nodes g" and ?L = "links_at_node g" and ?D = "link_dirs_at_node g"
  from ok have lL: "length ?L = ?N" and lD: "length ?D = ?N"
    and rows: "\<And>n. n < ?N \<Longrightarrow> length (?L ! n) = length (?D ! n) \<and>
                 (\<forall>l \<in> set (?L ! n). np_valid (length var) l)"
    by (simp_all add: node_links_ok_def)
  have "\<And>row. row \<in> set ?L \<Longrightarrow> np_take var row = Inr (map (np_at var) row)"
  proof -
    fix row assume "row \<in> set ?L"
    then obtain n where "n < ?N" "?L ! n = row" using lL by (metis in_set_conv_nth)
    then show "np_take var row = Inr (map (np_at var) row)"
      using rows [of n] by (simp add: np_take_np_at)
  qed
  then have t: "np_take2 var ?L = Inr (map (map (np_at var)) ?L)"
    unfolding np_take2_def by (rule map_err_all)
  have "\<And>p. p \<in> set (zip (map (map (np_at var)) ?L) ?D) \<Longrightarrow>
          (\<lambda>(r, s). np_binop (\<lambda>v d. v * real_of_int d) r s) p =
          Inr ((\<lambda>(r, s). map2 (\<lambda>v d. v * real_of_int d) r s) p)"
  proof -
    fix p assume "p \<in> set (zip (map (map (np_at var)) ?L) ?D)"
    then obtain n where n: "n < ?N" and p: "p = (map (np_at var) (?L ! n), ?D ! n)"
      using lL lD by (auto simp: in_set_conv_nth)
    show "(\<lambda>(r, s). np_binop (\<lambda>v d. v * real_of_int d) r s) p =
          Inr ((\<lambda>(r, s). map2 (\<lambda>v d. v * real_of_int d) r s) p)"
      using rows [OF n] by (simp add: p np_binop_same)
  qed
  then have b: "np_binop2 (\<lambda>v d. v * real_of_int d) (map (map (np_at var)) ?L) ?D =
        Inr (map (\<lambda>(r, s). map2 (\<lambda>v d. v * real_of_int d) r s) (zip (map (map (np_at var)) ?L) ?D))"
    unfolding np_binop2_def using lL lD by (simp add: map_err_all)
  have "map (map uminus) (map (\<lambda>(r, s). map2 (\<lambda>v d. v * real_of_int d) r s)
            (zip (map (map (np_at var)) ?L) ?D)) = map (upwind_entries g var) [0 ..< ?N]"
  proof (rule nth_equalityI)
    show "length (map (map uminus) (map (\<lambda>(r, s). map2 (\<lambda>v d. v * real_of_int d) r s)
            (zip (map (map (np_at var)) ?L) ?D))) = length (map (upwind_entries g var) [0 ..< ?N])"
      using lL lD by simp
  next
    fix n assume "n < length (map (map uminus) (map (\<lambda>(r, s). map2 (\<lambda>v d. v * real_of_int d) r s)
            (zip (map (map (np_at var)) ?L) ?D)))"
    then have n: "n < ?N" using lL lD by simp
    have len: "length (?L ! n) = length (?D ! n)" using rows [OF n] by simp
    show "map (map uminus) (map (\<lambda>(r, s). map2 (\<lambda>v d. v * real_of_int d) r s)
            (zip (map (map (np_at var)) ?L) ?D)) ! n = map (upwind_entries g var) [0 ..< ?N] ! n"
      using n lL lD len
      by (auto simp: upwind_entries_def intro!: nth_equalityI)
  qed
  then show ?thesis
    unfolding vals_in_positive_def by (simp add: t b)
qed

lemma upwind_mean_value:
  assumes ok: "node_links_ok g var"
    and out: "out_length (number_of_nodes g) out = number_of_nodes g"
  shows "map_upwind_node_link_mean_to_node g (Array var) out =
         Inr (map (\<lambda>n. divide_nan_to_zero (row_total (upwind_entries g var n))
                          (row_count (upwind_entries g var n))) [0 ..< number_of_nodes g])"
  unfolding map_upwind_node_link_mean_to_node_def
  by (simp add: field_values_def vals_in_positive_value [OF ok] np_binop_same out np_store_same
      zip_map_map map_zip_map zip_same_conv_map comp_def)

lemma row_total_count_nonpositive:
  "\<forall>v \<in> set row. v \<le> 0 \<Longrightarrow> row_count row = 0"
  by (induction row) (auto simp: row_count_def)

lemma upwind_mean_without_upwind_link:
  assumes ok: "node_links_ok g var"
    and out: "out_length (number_of_nodes g) out = number_of_nodes g"
    and n: "n < number_of_nodes g"
    and none: "\<forall>v \<in> set (upwind_entries g var n). v \<le> 0"
  shows "\<exists>res. map_upwind_node_link_mean_to_node g (Array var) out = Inr res \<and> res ! n = 0"
  using n row_total_count_nonpositive [OF none]
  by (simp add: upwind_mean_value [OF ok out] divide_nan_to_zero_def)

lemma row_total_positive: "row_total row = sum_list (filter (\<lambda>v. v > 0) row)"
  by (induction row) (simp_all add: row_total_def)

lemma upwind_mean_of_upwind_links:
  assumes ok: "node_links_ok g var"
    and out: "out_length (number_of_nodes g) out = number_of_nodes g"
    and n: "n < number_of_nodes g"
    and some: "filter (\<lambda>v. v > 0) (upwind_entries g var n) \<noteq> []"
  shows "\<exists>res. map_upwind_node_link_mean_to_node g (Array var) out = Inr res \<and>
           res ! n = sum_list (filter (\<lambda>v. v > 0) (upwind_entries g var n)) /
                     real (length (filter (\<lambda>v. v > 0) (upwind_entries g var n)))"
  using n some
  by (simp add: upwind_mean_value [OF ok out] divide_nan_to_zero_def row_total_positive
      row_count_def)

lemma upwind_max_value:
  assumes ok: "node_links_ok g var"
    and out: "out_length (number_of_nodes g) out = number_of_nodes g"
    and n: "n < number_of_nodes g"
    and rows: "\<forall>m < number_of_nodes g. links_at_node g ! m \<noteq> []"
  shows "\<exists>res. map_upwind_node_link_max_to_node g (Array var) out = Inr res \<and>
           res ! n = Max (set (upwind_entries g var n))"
proof -
  have ne: "\<And>m. m < number_of_nodes g \<Longrightarrow> upwind_entries g var m \<noteq> []"
  proof -
    fix m assume m: "m < number_of_nodes g"
    then have "length (links_at_node g ! m) = length (link_dirs_at_node g ! m)"
      using ok by (simp add: node_links_ok_def)
    then show "upwind_entries g var m \<noteq> []"
      using rows m by (auto simp: upwind_entries_def)
  qed
  have "\<And>row. row \<in> set (map (upwind_entries g var) [0 ..< number_of_nodes g]) \<Longrightarrow>
          np_amax row = Inr (Max (set row))"
  proof -
    fix row assume "row \<in> set (map (upwind_entries g var) [0 ..< number_of_nodes g])"
    then have "row \<noteq> []" using ne by auto
    then obtain x xs where "row = x # xs" by (cases row) auto
    then show "np_amax row = Inr (Max (set row))"
      by (simp add: np_amax_def fold_max_Max)
  qed
  then have "map_err np_amax (map (upwind_entries g var) [0 ..< number_of_nodes g]) =
        Inr (map (\<lambda>row. Max (set row)) (map (upwind_entries g var) [0 ..< number_of_nodes g]))"
    by (rule map_err_all)
  then show ?thesis
    unfolding map_upwind_node_link_max_to_node_def
    using n
    by (simp add: field_values_def vals_in_positive_value [OF ok] out np_store_exact_def)
qed

section \<open>Link reorientation: which links flip, and the result\<close>

lemma link_angle_cases:
  "link_angle dx dy =
     (if arctan2 dx dy + pi / 4 \<ge> pi then arctan2 dx dy + pi / 4 - 2 * pi
      else arctan2 dx dy + pi / 4)"
  by (simp add: link_angle_def Let_def)

lemma link_angle_neg_iff:
  "link_angle dx dy < 0 \<longleftrightarrow> dx + dy < 0 \<or> (dx + dy = 0 \<and> dx > 0)"
proof -
  have m1: "arctan (- 1) = - (pi / 4)" by (simp add: arctan_minus arctan_one)
  have ub: "arctan (dx / dy) < pi / 2" by (rule arctan_ubound)
  have lb: "- (pi / 2) < arctan (dx / dy)" by (rule arctan_lbound)
  note pi_gt_zero [simp del]
  have p: "0 < pi" by (rule pi_gt_zero)
  consider (pos) "dy > 0" | (neg_nonneg) "dy < 0" "dx \<ge> 0" | (neg_neg) "dy < 0" "dx < 0"
    | (zero) "dy = 0"
    by linarith
  then show ?thesis
  proof cases
    case pos
    have "arctan (dx / dy) < arctan (- 1) \<longleftrightarrow> dx / dy < - 1"
      by (rule arctan_less_iff)
    also have "\<dots> \<longleftrightarrow> dx + dy < 0"
      using pos by (auto simp: pos_divide_less_eq)
    finally have k: "arctan (dx / dy) < - (pi / 4) \<longleftrightarrow> dx + dy < 0" unfolding m1 .
    have a2: "arctan2 dx dy = arctan (dx / dy)" using pos by (simp add: arctan2_def)
    have "\<not> arctan2 dx dy + pi / 4 \<ge> pi" using a2 ub p by linarith
    then have "link_angle dx dy = arctan (dx / dy) + pi / 4"
      using a2 by (simp add: link_angle_cases)
    then have "link_angle dx dy < 0 \<longleftrightarrow> arctan (dx / dy) < - (pi / 4)" by linarith
    then show ?thesis using k pos by auto
  next
    case neg_nonneg
    have "arctan (- 1) \<le> arctan (dx / dy) \<longleftrightarrow> - 1 \<le> dx / dy"
      by (rule arctan_le_iff)
    also have "\<dots> \<longleftrightarrow> dx + dy \<le> 0"
      using neg_nonneg by (auto simp: neg_le_divide_eq)
    finally have k: "- (pi / 4) \<le> arctan (dx / dy) \<longleftrightarrow> dx + dy \<le> 0" unfolding m1 .
    have a2: "arctan2 dx dy = arctan (dx / dy) + pi"
      using neg_nonneg by (simp add: arctan2_def)
    show ?thesis
    proof (cases "dx + dy \<le> 0")
      case True
      then have "- (pi / 4) \<le> arctan (dx / dy)" using k by simp
      then have "arctan2 dx dy + pi / 4 \<ge> pi" using a2 by linarith
      then have "link_angle dx dy = arctan2 dx dy + pi / 4 - 2 * pi"
        by (simp add: link_angle_cases)
      then have "link_angle dx dy < 0" using a2 ub p by linarith
      then show ?thesis using True neg_nonneg by auto
    next
      case False
      then have "\<not> - (pi / 4) \<le> arctan (dx / dy)" using k by simp
      then have "\<not> arctan2 dx dy + pi / 4 \<ge> pi" using a2 by linarith
      then have "link_angle dx dy = arctan2 dx dy + pi / 4"
        by (simp add: link_angle_cases)
      then have "link_angle dx dy \<ge> 0" using a2 lb p by linarith
      then show ?thesis using False by auto
    qed
  next
    case neg_neg
    have "dx / dy > 0" using neg_neg by (simp add: divide_neg_neg)
    then have b0: "0 < arctan (dx / dy)" by simp
    have a2: "arctan2 dx dy = arctan (dx / dy) - pi"
      using neg_neg by (simp add: arctan2_def)
    have "\<not> arctan2 dx dy + pi / 4 \<ge> pi" using a2 ub p by linarith
    then have "link_angle dx dy = arctan2 dx dy + pi / 4"
      by (simp add: link_angle_cases)
    then have "link_angle dx dy < 0" using a2 ub p by linarith
    then show ?thesis using neg_neg by auto
  next
    case zero
    have a2: "arctan2 dx dy = (if dx > 0 then pi / 2 else if dx < 0 then - (pi / 2) else 0)"
      using zero by (simp add: arctan2_def)
    have "\<not> arctan2 dx dy + pi / 4 \<ge> pi" using a2 p by (auto split: if_splits)
    then have la: "link_angle dx dy = arctan2 dx dy + pi / 4"
      by (simp add: link_angle_cases)
    consider "dx > 0" | "dx < 0" | "dx = 0" by linarith
    then show ?thesis
    proof cases
      case 1
      then have "link_angle dx dy = pi / 2 + pi / 4" using la a2 by simp
      then have "\<not> link_angle dx dy < 0" using p by linarith
      then show ?thesis using zero 1 by simp
    next
      case 2
      then have "link_angle dx dy = - (pi / 2) + pi / 4" using la a2 by simp
      then have "link_angle dx dy < 0" using p by linarith
      then show ?thesis using zero 2 by simp
    next
      case 3
      then have "link_angle dx dy = pi / 4" using la a2 by simp
      then have "\<not> link_angle dx dy < 0" using p by linarith
      then show ?thesis using zero 3 by simp
    qed
  qed
qed

lemma reorient_value:
  assumes ok: "link_geometry_ok g"
  shows "reorient_links_upper_right g =
         Inr (g\<lparr>node_at_link_tail :=
                 map (\<lambda>i. if link_flips g i then node_at_link_head g ! i
                          else node_at_link_tail g ! i) [0 ..< number_of_links g],
               node_at_link_head :=
                 map (\<lambda>i. if link_flips g i then node_at_link_tail g ! i
                          else node_at_link_head g ! i) [0 ..< number_of_links g]\<rparr>)"
proof -
  let ?n = "number_of_links g" and ?t = "node_at_link_tail g" and ?h = "node_at_link_head g"
  let ?x = "node_x g" and ?y = "node_y g"
  from ok have lt: "length ?t = ?n" and lh: "length ?h = ?n"
    and rt: "\<forall>j \<in> set ?t. 0 \<le> j \<and> j < int (length ?x)"
    and rh: "\<forall>j \<in> set ?h. 0 \<le> j \<and> j < int (length ?x)"
    and rt': "\<forall>j \<in> set ?t. 0 \<le> j \<and> j < int (length ?y)"
    and rh': "\<forall>j \<in> set ?h. 0 \<le> j \<and> j < int (length ?y)"
    by (auto simp: link_geometry_ok_def links_ok_def)
  let ?dx = "map2 (-) (map (\<lambda>j. ?x ! nat j) ?h) (map (\<lambda>j. ?x ! nat j) ?t)"
  let ?dy = "map2 (-) (map (\<lambda>j. ?y ! nat j) ?h) (map (\<lambda>j. ?y ! nat j) ?t)"
  let ?angles = "map2 link_angle ?dx ?dy"
  let ?sel = "filter (link_flips g) [0 ..< ?n]"
  have la: "length ?angles = ?n" using lt lh by simp
  have ang: "\<And>i. i < ?n \<Longrightarrow> ?angles ! i < 0 \<longleftrightarrow> link_flips g i"
    using lt lh by (simp add: link_flips_def)
  have locs: "flip_locs ?angles = map int ?sel"
    unfolding flip_locs_def la
    by (rule arg_cong [where f = "map int"], rule filter_cong) (simp_all add: ang)
  have sel_rng: "\<forall>j \<in> set (map int ?sel). 0 \<le> j \<and> j < int ?n" by auto
  have tk_t: "np_take ?t (map int ?sel) = Inr (map (\<lambda>i. ?t ! i) ?sel)"
    using np_take_valid [of "map int ?sel" ?t] sel_rng lt by (simp add: comp_def)
  have tk_h: "np_take ?h (map int ?sel) = Inr (map (\<lambda>i. ?h ! i) ?sel)"
    using np_take_valid [of "map int ?sel" ?h] sel_rng lh by (simp add: comp_def)
  have run: "reorient_links_upper_right g =
        (if length ?sel > 0 then
           Inr (g\<lparr>node_at_link_tail := map (\<lambda>i. if link_flips g i then ?h ! i else ?t ! i) [0 ..< ?n],
                 node_at_link_head := map (\<lambda>i. if link_flips g i then ?t ! i else ?h ! i) [0 ..< ?n]\<rparr>)
         else Inr g)"
    unfolding reorient_links_upper_right_def
    by (simp add: np_take_valid [OF rt] np_take_valid [OF rh] np_take_valid [OF rt']
        np_take_valid [OF rh'] np_binop_same lt lh locs Let_def tk_t tk_h
        np_put_filter [OF lt lh] np_put_filter [OF lh lt])
  show ?thesis
  proof (cases "length ?sel > 0")
    case True
    then show ?thesis using run by simp
  next
    case False
    then have none: "\<And>i. i < ?n \<Longrightarrow> \<not> link_flips g i"
      by (auto simp: filter_empty_conv)
    have "map (\<lambda>i. if link_flips g i then ?h ! i else ?t ! i) [0 ..< ?n] = ?t"
      by (rule nth_equalityI) (simp_all add: lt none)
    moreover have "map (\<lambda>i. if link_flips g i then ?t ! i else ?h ! i) [0 ..< ?n] = ?h"
      by (rule nth_equalityI) (simp_all add: lh none)
    ultimately show ?thesis using run False by simp
  qed
qed

lemma reorient_keeps_geometry:
  assumes ok: "link_geometry_ok g" and r: "reorient_links_upper_right g = Inr g'"
  shows "link_geometry_ok g'"
proof -
  let ?n = "number_of_links g"
  from ok have lt: "length (node_at_link_tail g) = ?n" and lh: "length (node_at_link_head g) = ?n"
    and rng: "\<forall>j \<in> set (node_at_link_tail g) \<union> set (node_at_link_head g).
                0 \<le> j \<and> j < int (number_of_nodes g)"
    by (auto simp: link_geometry_ok_def links_ok_def)
  have el: "\<And>i. i < ?n \<Longrightarrow> 0 \<le> node_at_link_tail g ! i \<and> node_at_link_tail g ! i < int (number_of_nodes g)
        \<and> 0 \<le> node_at_link_head g ! i \<and> node_at_link_head g ! i < int (number_of_nodes g)"
    using rng lt lh by (metis UnI1 UnI2 nth_mem)
  from r have g': "g' = g\<lparr>node_at_link_tail :=
                 map (\<lambda>i. if link_flips g i then node_at_link_head g ! i
                          else node_at_link_tail g ! i) [0 ..< ?n],
               node_at_link_head :=
                 map (\<lambda>i. if link_flips g i then node_at_link_tail g ! i
                          else node_at_link_head g ! i) [0 ..< ?n]\<rparr>"
    unfolding reorient_value [OF ok] by simp
  show ?thesis
    using ok el unfolding g' link_geometry_ok_def links_ok_def by auto
qed

lemma flipped_link_stays:
  assumes "link_angle dx dy < 0"
  shows "\<not> link_angle (- dx) (- dy) < 0"
  using assms unfolding link_angle_neg_iff by linarith

lemma geometry_3x4_reversed: "link_geometry_ok raster_3x4_reversed"
  by (simp add: link_geometry_ok_def links_ok_def raster_3x4_reversed_def raster_3x4_def)

lemma reorient_reversed_raster:
  "reorient_links_upper_right raster_3x4_reversed = Inr raster_3x4"
  unfolding reorient_value [OF geometry_3x4_reversed]
  by (simp add: link_flips_def link_angle_neg_iff raster_3x4_reversed_def raster_3x4_def
      upt_rec numeral_eq_Suc)

text \<open>
  In exact arithmetic a second reorientation changes nothing: a flipped link has the
  opposite vector, whose angle is not negative. The code rounds \<open>arctan2\<close> and the sum
  with \<open>pi / 4\<close>, and for a link within rounding of the diagonal at 135 degrees from the
  vertical both orientations get a negative rounded angle; the lemma says nothing about
  such a link in the code.
\<close>

lemma reorient_idempotent_exact:
  assumes ok: "link_geometry_ok g"
  shows "\<exists>g'. reorient_links_upper_right g = Inr g' \<and>
           reorient_links_upper_right g' = Inr g'"
proof -
  let ?n = "number_of_links g"
  let ?g' = "g\<lparr>node_at_link_tail :=
                 map (\<lambda>i. if link_flips g i then node_at_link_head g ! i
                          else node_at_link_tail g ! i) [0 ..< ?n],
               node_at_link_head :=
                 map (\<lambda>i. if link_flips g i then node_at_link_tail g ! i
                          else node_at_link_head g ! i) [0 ..< ?n]\<rparr>"
  have r: "reorient_links_upper_right g = Inr ?g'" by (rule reorient_value [OF ok])
  have ok': "link_geometry_ok ?g'" by (rule reorient_keeps_geometry [OF ok r])
  have n': "number_of_links ?g' = ?n" by simp
  have still: "\<And>i. i < ?n \<Longrightarrow> \<not> link_flips ?g' i"
  proof -
    fix i assume i: "i < ?n"
    show "\<not> link_flips ?g' i"
    proof (cases "link_flips g i")
      case True
      then have "link_angle
         (node_x g ! nat (node_at_link_head g ! i) - node_x g ! nat (node_at_link_tail g ! i))
         (node_y g ! nat (node_at_link_head g ! i) - node_y g ! nat (node_at_link_tail g ! i)) < 0"
        by (simp add: link_flips_def)
      from flipped_link_stays [OF this] show ?thesis
        using i True by (simp add: link_flips_def)
    next
      case False
      then show ?thesis using i by (simp add: link_flips_def)
    qed
  qed
  have "reorient_links_upper_right ?g' = Inr ?g'"
    unfolding reorient_value [OF ok'] n'
    by (rule arg_cong [where f = Inr]) (simp add: still cong: map_cong)
  then show ?thesis using r by simp
qed

section \<open>Sorting the points: a sorted permutation\<close>












text \<open>
  The two documented examples. The class docstring of \<open>VoronoiDelaunayGrid\<close> builds a
  grid from \<open>x = [0,0,0,0,1,1,1,1,2,2,2,2]\<close>, \<open>y = [0,1,2,3,0,1,2,3,0,1,2,3]\<close> and prints
  \<open>node_x = [0,1,2,0,1,2,0,1,2,0,1,2]\<close>, \<open>node_y = [0,0,0,1,1,1,2,2,2,3,3,3]\<close>; the model
  gives these arrays. The ridges of \<open>docstring_diagram\<close>, listed in the order of the
  arrays that the docstring of \<open>create_links_and_faces_from_voronoi_diagram\<close> prints,
  are in the order that the model's argsort gives their link midpoints.
\<close>

lemmas sort_eval = initialize_points_def sort_points_by_x_then_y_def
  argsort_points_by_x_then_y_def y_then_x_le_def

lemma class_doctest_node_order:
  "initialize_points [0, 0, 0, 0, 1, 1, 1, 1, 2, 2, 2, 2] [0, 1, 2, 3, 0, 1, 2, 3, 0, 1, 2, 3]
   = Inr (zip [0, 1, 2, 0, 1, 2, 0, 1, 2, 0, 1, 2] [0, 0, 0, 1, 1, 1, 2, 2, 2, 3, 3, 3],
          [0, 1, 2, 0, 1, 2, 0, 1, 2, 0, 1, 2], [0, 0, 0, 1, 1, 1, 2, 2, 2, 3, 3, 3])"
  by (simp add: sort_eval upt_rec numeral_eq_Suc)

lemma docstring_midpoint_order:
  "map_sum id argsort_points_by_x_then_y
     (map_err (link_midpoint docstring_diagram) (ridge_points docstring_diagram))
   = Inr [0, 1, 2, 3, 4, 5, 6, 7, 8, 9, 10, 11]"
  by (simp add: link_midpoint_def docstring_diagram_def np_eval sort_eval upt_rec numeral_eq_Suc)

lemma far_vertex_midpoint_order:
  "map_sum id argsort_points_by_x_then_y
     (map_err (link_midpoint far_vertex_diagram) (ridge_points far_vertex_diagram))
   = Inr [0, 1, 2, 3, 4, 5]"
  by (simp add: link_midpoint_def far_vertex_diagram_def np_eval sort_eval upt_rec numeral_eq_Suc)



section \<open>Links and faces, and the patch table, on the four-point grid\<close>

lemma sqrt_far_face: "sqrt 1849000000000000 = 43000000"
  by (rule real_sqrt_unique) simp_all

lemma sqrt_small_faces: "sqrt 46225 = 215" "sqrt 184900 = 430"
  by (rule real_sqrt_unique, simp_all)+

lemmas faces_eval = create_links_and_faces_from_voronoi_diagram_def count_undefined_def
  link_midpoint_def is_valid_voronoi_ridge_def SUSPICIOUSLY_BIG_def

lemmas patch_eval = patches_at_node_def create_patches_from_delaunay_diagram_def
  cached_patches_def nodata_value_def patch_row_def patches_with_node_def

text \<open>
  The model gives the arrays of the docstring of
  \<open>create_links_and_faces_from_voronoi_diagram\<close>: the tail and head nodes, the active
  links \<open>[2, 3, 5, 6, 8, 9]\<close>, and face widths that agree with the printed
  \<open>0.57669199\<close>, \<open>0.575973\<close> and \<open>0.57836419\<close> to eight decimals.
\<close>

lemma sqrt_vertical_face: "sqrt (185711869249 / 559803240000) = 430943 / 748200"
  by (rule real_sqrt_unique) (simp_all add: power2_eq_square)

lemma docstring_links_and_faces:
  "create_links_and_faces_from_voronoi_diagram [0, 1, 2, 3, 4, 5, 6, 7, 8, 9, 10, 11]
     docstring_diagram
   = Inr ([0, 0, 0, 1, 1, 2, 3, 2, 3, 6, 6, 6], [1, 2, 3, 3, 4, 3, 4, 5, 5, 3, 4, 5],
          [2, 3, 5, 6, 8, 9],
          [sqrt (10069 / 30276), sqrt (10069 / 30276), 430943 / 748200, 430943 / 748200,
           sqrt (2474 / 7396), sqrt (2474 / 7396)])"
  by (simp add: faces_eval docstring_diagram_def np_eval upt_rec numeral_eq_Suc sqrt_vertical_face)


lemma docstring_widths:
  "\<bar>sqrt (10069 / 30276) - 57669199 / 100000000\<bar> < 1 / 100000000"
  "\<bar>430943 / 748200 - 575973 / 1000000 :: real\<bar> < 1 / 100000000"
  "\<bar>sqrt (2474 / 7396) - 57836419 / 100000000\<bar> < 1 / 100000000"
proof -
  have "57669198 / 100000000 < sqrt (10069 / 30276)"
    by (rule real_less_rsqrt) (simp add: power2_eq_square)
  moreover have "sqrt (10069 / 30276) < 57669200 / 100000000"
    by (rule real_less_lsqrt) (simp_all add: power2_eq_square)
  ultimately show "\<bar>sqrt (10069 / 30276) - 57669199 / 100000000\<bar> < 1 / 100000000"
    by linarith
  show "\<bar>430943 / 748200 - 575973 / 1000000 :: real\<bar> < 1 / 100000000"
    by simp
  have "57836418 / 100000000 < sqrt (2474 / 7396)"
    by (rule real_less_rsqrt) (simp add: power2_eq_square)
  moreover have "sqrt (2474 / 7396) < 57836420 / 100000000"
    by (rule real_less_lsqrt) (simp_all add: power2_eq_square)
  ultimately show "\<bar>sqrt (2474 / 7396) - 57836419 / 100000000\<bar> < 1 / 100000000"
    by linarith
qed

text \<open>Where every vertex is within the bound, the three ridges with two vertices give
  three active links and three faces with the lengths of the ridges.\<close>

lemma small_diagram_links_and_faces:
  "create_links_and_faces_from_voronoi_diagram [0, 1, 2, 3, 4, 5] small_diagram
   = Inr ([0, 0, 1, 0, 1, 2], [1, 2, 2, 3, 3, 3], [1, 2, 5], [215, sqrt 179353, 430])"
  by (simp add: faces_eval small_diagram_def np_eval upt_rec numeral_eq_Suc sqrt_small_faces)

text \<open>The patch table of the fresh grid with the default \<open>nodata\<close>.\<close>

lemma four_point_patches:
  "map_sum id fst (patches_at_node four_point_backend four_point_grid (NodataInt (- 1)))
   = Inr [[0, 1, - 1], [0, 2, - 1], [0, 1, 2], [1, 2, - 1]]"
  by (simp add: patch_eval four_point_grid_def four_point_backend_def small_diagram_def
      np_eval upt_rec numeral_eq_Suc)

text \<open>Once \<open>set_bad_value\<close> exists, any \<open>nodata\<close> other than \<open>-1\<close> gets the table that
  exists; the option is not looked at.\<close>

lemma patches_at_node_cached:
  "set_bad_value g \<Longrightarrow> nodata \<noteq> NodataInt (- 1) \<Longrightarrow>
   patches_at_node be g nodata = cached_patches g"
  by (simp add: patches_at_node_def)

text \<open>While it does not exist, an unknown option raises ValueError.\<close>

lemma patches_at_node_unknown_option:
  assumes "\<not> set_bad_value g" "pts_attr g = points (vor_attr g)"
    and "nodata \<noteq> NodataInt (- 1)" "nodata \<noteq> NodataStr ''bad_value''"
      "nodata \<noteq> NodataStr ''nan''"
  shows "patches_at_node be g nodata = Inl ValueError"
  using assms
  by (simp add: patches_at_node_def create_patches_from_delaunay_diagram_def nodata_value_def)

section \<open>C1: flux divergence at nodes without a cell\<close>

text \<open>
  C1 (the code departs from it): the docstring of \<open>calculate_flux_divergence_at_nodes\<close>
  says that boundary nodes, which have no cell, get zeros. On the grid of its own
  doctest, \<open>RasterModelGrid((4, 5))\<close> with the unit flux on all 17 active links, the
  function returns the array below, which is the array the doctest prints: node 1 is a
  perimeter node, no cell has it as its node, and its entry is 1 (the net flux of its
  one active link, not divided by any area).
\<close>

theorem flux_divergence_doctest_boundary_nodes:
  "calculate_flux_divergence_at_nodes raster_4x5 (replicate 17 1) None
     = Inr [0, 1, 1, 1, 0, 1, 0, 0, 0, -1, 1, 0, 0, 0, -1, 0, -1, -1, -1, 0] \<and>
   1 \<notin> set (node_at_cell raster_4x5) \<and>
   [0, 1, 1, 1, 0, 1, 0, 0, 0, -1, 1, 0, 0, 0, -1, 0, -1, -1, -1, 0] ! 1 = (1::real)"
  by (simp add: calculate_flux_divergence_at_nodes_def raster_4x5_def np_eval upt_rec
      numeral_eq_Suc)

section \<open>C2: uniform flux and closed boundaries\<close>




section \<open>C3: faces and active links\<close>

text \<open>
  C3 (the code departs from it): in \<open>far_vertex_diagram\<close> the ridges 1, 2 and 5 have both
  vertices defined, but those of ridges 2 and 5 include a vertex beyond the bound, so
  only ridge 1 is valid. The arrays of active links and of face widths are sized by
  the count of defined ridges (3) and filled by the count of valid ones (1): two slots
  keep their initial \<open>-1\<close>, an active link that is no link and a face of width -1.
\<close>

theorem far_vertex_leaves_unfilled_faces:
  "create_links_and_faces_from_voronoi_diagram [0, 1, 2, 3, 4, 5] far_vertex_diagram
     = Inr ([0, 0, 1, 0, 1, 2], [1, 2, 2, 3, 3, 3], [1, - 1, - 1], [43000000, - 1, - 1]) \<and>
   map (is_valid_voronoi_ridge far_vertex_diagram) [0, 1, 2, 3, 4, 5]
     = [Inr False, Inr True, Inr False, Inr False, Inr False, Inr False] \<and>
   ridge_vertices far_vertex_diagram ! 2 = (0, 2) \<and>
   ridge_vertices far_vertex_diagram ! 5 = (1, 2)"
  by (simp add: faces_eval far_vertex_diagram_def np_eval upt_rec numeral_eq_Suc sqrt_far_face)

section \<open>C4: the order of the nodes\<close>




section \<open>C5: reorientation applied twice\<close>

text \<open>
  C5 (the code departs from it): for a link from \<open>(0, 0)\<close> to
  \<open>(1.0000000000000002, -1)\<close>, in double precision \<open>arctan2(dx, dy) + pi / 4\<close> rounds to
  \<open>pi\<close>, which the wrap turns into \<open>-pi\<close>, so the link is flipped; for the flipped link
  \<open>arctan2(-dx, -dy)\<close> rounds to one unit in the last place below \<open>-pi / 4\<close>, the sum
  is about \<open>-1.1e-16\<close>, and the link is flipped back. Every call flips this link, so a
  second call changes the arrays again. Rounding is outside the model of this theory
  (\<open>reorient_idempotent_exact\<close> is the statement for exact arithmetic), so no theorem
  is given for this input.
\<close>

section \<open>C6: the upwind maximum and mean at a node with no upwind link\<close>

text \<open>
  C6 (the code departs from it for the maximum): on \<open>RasterModelGrid((3, 3))\<close> let the
  link values be the gradient of a surface that is 1 at the centre node 4 and 0
  elsewhere. Every link of node 4 carries flux away from it, so node 4 has no upwind
  link; its row of the table has no padding, so every entry of the negated product is
  -1, and the maximum recorded at node 4 is -1, not the 0 that the docstring promises.
  The mean at the same node is 0.
\<close>

theorem upwind_max_at_peak_is_negative:
  "map_upwind_node_link_max_to_node raster_3x3
     (Array [0, 0, 0, 1, 0, 1, -1, 0, -1, 0, 0, 0]) None
     = Inr [0, 1, 0, 1, -1, 1, 0, 1, 0] \<and>
   map_upwind_node_link_mean_to_node raster_3x3
     (Array [0, 0, 0, 1, 0, 1, -1, 0, -1, 0, 0, 0]) None
     = Inr [0, 1, 0, 1, 0, 1, 0, 1, 0]"
  by (simp add: map_upwind_node_link_max_to_node_def map_upwind_node_link_mean_to_node_def
      vals_in_positive_def raster_3x3_def np_eval row_total_def row_count_def
      divide_nan_to_zero_def)

section \<open>C7: a flux array of the wrong length\<close>

text \<open>
  C7: when the length of the flux array differs from the grid's number of active links,
  \<open>calculate_flux_divergence_at_nodes\<close> raises (the assertion in its first line fails),
  whatever the grid's tables and the output buffer are; no result is computed from the
  array.
\<close>

theorem wrong_flux_length_raises:
  "length active_link_flux \<noteq> number_of_active_links g \<Longrightarrow>
   calculate_flux_divergence_at_nodes g active_link_flux out = Inl AssertionError"
  by (simp add: calculate_flux_divergence_at_nodes_def)

theorem wrong_flux_length_raises_witness:
  "length [1, 2, 3 :: real] \<noteq> number_of_active_links raster_4x5 \<and>
   calculate_flux_divergence_at_nodes raster_4x5 [1, 2, 3] None = Inl AssertionError"
proof -
  have h: "length [1, 2, 3 :: real] \<noteq> number_of_active_links raster_4x5"
    by (simp add: raster_4x5_def)
  show ?thesis using h wrong_flux_length_raises [OF h, of None] by simp
qed

section \<open>C8: an unknown nodata option and the cache\<close>

text \<open>
  C8 (the code departs from it): on the fresh four-point grid an unknown option raises
  ValueError. After one call with \<open>'nan'\<close>, which builds the table and creates
  \<open>set_bad_value\<close>, the same unknown option raises nothing: the call returns the table
  built for \<open>'nan'\<close> and leaves the grid as it is.
\<close>

theorem unknown_nodata_accepted_after_caching:
  "patches_at_node four_point_backend four_point_grid (NodataStr ''zero'') = Inl ValueError \<and>
   patches_at_node four_point_backend four_point_grid (NodataStr ''nan'')
     = Inr ([[0, 1, - 9223372036854775808], [0, 2, - 9223372036854775808], [0, 1, 2],
             [1, 2, - 9223372036854775808]], four_point_grid_nan) \<and>
   patches_at_node four_point_backend four_point_grid_nan (NodataStr ''zero'')
     = Inr ([[0, 1, - 9223372036854775808], [0, 2, - 9223372036854775808], [0, 1, 2],
             [1, 2, - 9223372036854775808]], four_point_grid_nan)"
  by (simp add: patch_eval four_point_grid_nan_def four_point_grid_def four_point_backend_def
      small_diagram_def np_eval upt_rec numeral_eq_Suc)

section \<open>C9: equal control values select the head node\<close>

text \<open>
  C9: on a grid with well-formed link tables, for control and value arrays with one entry
  per node, both \<open>map_value_at_min_node_to_link\<close> and \<open>map_value_at_max_node_to_link\<close>
  return an array with one entry per link, and at every link whose tail and head have
  equal control values the entry is the value at the head node.
\<close>

theorem tie_selects_head_value:
  assumes ok: "links_ok g"
    and c: "field_values (at_node g) control_name = Inr control"
    and v: "field_values (at_node g) value_name = Inr vals"
    and lc: "length control = number_of_nodes g"
    and lv: "length vals = number_of_nodes g"
    and out: "out_length (number_of_links g) out = number_of_links g"
    and i: "i < number_of_links g"
    and tie: "control ! nat (node_at_link_tail g ! i) = control ! nat (node_at_link_head g ! i)"
  shows "\<exists>lo hi.
           map_value_at_min_node_to_link g control_name value_name out = Inr lo \<and>
           map_value_at_max_node_to_link g control_name value_name out = Inr hi \<and>
           length lo = number_of_links g \<and> length hi = number_of_links g \<and>
           lo ! i = vals ! nat (node_at_link_head g ! i) \<and>
           hi ! i = vals ! nat (node_at_link_head g ! i)"
proof -
  have len: "length (node_at_link_tail g) = number_of_links g"
      "length (node_at_link_head g) = number_of_links g"
    using ok by (simp_all add: links_ok_def)
  show ?thesis
    using i tie len
    by (simp add: min_node_value [OF ok c v lc lv out] max_node_value [OF ok c v lc lv out])
qed

text \<open>On the 3 by 4 raster grid, with a control array that is equal at nodes 5 and 6:
  link 8 joins them, and both mappers give it the value 50 of its head, node 6.\<close>

theorem tie_selects_head_value_witness:
  "links_ok raster_3x4 \<and>
   field_values (at_node raster_3x4) (Array [0, 0, 0, 0, 1, 2, 2, 1, 3, 3, 3, 3])
     = Inr [0, 0, 0, 0, 1, 2, 2, 1, 3, 3, 3, 3] \<and>
   field_values (at_node raster_3x4) (Name ''vals_to_map'')
     = Inr [0, 10, 20, 30, 70, 60, 50, 40, 80, 90, 100, 110] \<and>
   (\<exists>lo hi.
      map_value_at_min_node_to_link raster_3x4 (Array [0, 0, 0, 0, 1, 2, 2, 1, 3, 3, 3, 3])
        (Name ''vals_to_map'') None = Inr lo \<and>
      map_value_at_max_node_to_link raster_3x4 (Array [0, 0, 0, 0, 1, 2, 2, 1, 3, 3, 3, 3])
        (Name ''vals_to_map'') None = Inr hi \<and>
      lo ! 8 = 50 \<and> hi ! 8 = 50)"
proof -
  have ok: "links_ok raster_3x4"
    by (simp add: links_ok_def raster_3x4_def)
  have c: "field_values (at_node raster_3x4) (Array [0, 0, 0, 0, 1, 2, 2, 1, 3, 3, 3, 3])
     = Inr [0, 0, 0, 0, 1, 2, 2, 1, 3, 3, 3, 3]"
    by (simp add: field_values_def)
  have v: "field_values (at_node raster_3x4) (Name ''vals_to_map'')
     = Inr [0, 10, 20, 30, 70, 60, 50, 40, 80, 90, 100, 110]"
    by (simp add: field_values_def raster_3x4_def)
  have "\<exists>lo hi.
      map_value_at_min_node_to_link raster_3x4 (Array [0, 0, 0, 0, 1, 2, 2, 1, 3, 3, 3, 3])
        (Name ''vals_to_map'') None = Inr lo \<and>
      map_value_at_max_node_to_link raster_3x4 (Array [0, 0, 0, 0, 1, 2, 2, 1, 3, 3, 3, 3])
        (Name ''vals_to_map'') None = Inr hi \<and>
      length lo = number_of_links raster_3x4 \<and> length hi = number_of_links raster_3x4 \<and>
      lo ! 8 = [0, 10, 20, 30, 70, 60, 50, 40, 80, 90, 100, 110] ! nat (node_at_link_head raster_3x4 ! 8) \<and>
      hi ! 8 = [0, 10, 20, 30, 70, 60, 50, 40, 80, 90, 100, 110] ! nat (node_at_link_head raster_3x4 ! 8)"
    by (rule tie_selects_head_value [OF ok c v, where out = None and i = 8])
       (simp_all add: raster_3x4_def out_length_def)
  moreover have "nat (node_at_link_head raster_3x4 ! 8) = 6"
    by (simp add: raster_3x4_def)
  ultimately show ?thesis using ok c v by auto
qed

section \<open>C10: link reorientation keeps every link's pair of end nodes\<close>

text \<open>
  C10: on every grid whose link and coordinate tables fit together,
  \<open>reorient_links_upper_right\<close> returns a grid with the same number of links in which
  every link has the same unordered pair of end nodes as before: tail and head are kept
  or swapped.
\<close>

theorem reorient_preserves_link_ends:
  assumes ok: "link_geometry_ok g"
  shows "\<exists>g'. reorient_links_upper_right g = Inr g' \<and>
           number_of_links g' = number_of_links g \<and>
           length (node_at_link_tail g') = number_of_links g \<and>
           length (node_at_link_head g') = number_of_links g \<and>
           (\<forall>i < number_of_links g.
              {node_at_link_tail g' ! i, node_at_link_head g' ! i} =
                {node_at_link_tail g ! i, node_at_link_head g ! i} \<and>
              (node_at_link_tail g' ! i = node_at_link_tail g ! i \<and>
               node_at_link_head g' ! i = node_at_link_head g ! i \<or>
               node_at_link_tail g' ! i = node_at_link_head g ! i \<and>
               node_at_link_head g' ! i = node_at_link_tail g ! i))"
  unfolding reorient_value [OF ok] by auto

text \<open>Link 0 of the reversed raster grid, from node 1 to node 0, becomes the link from
  node 0 to node 1.\<close>

theorem reorient_preserves_link_ends_witness:
  "link_geometry_ok raster_3x4_reversed \<and>
   reorient_links_upper_right raster_3x4_reversed = Inr raster_3x4 \<and>
   number_of_links raster_3x4 = number_of_links raster_3x4_reversed \<and>
   {node_at_link_tail raster_3x4 ! 0, node_at_link_head raster_3x4 ! 0} =
   {node_at_link_tail raster_3x4_reversed ! 0, node_at_link_head raster_3x4_reversed ! 0}"
proof -
  have "(0::nat) < number_of_links raster_3x4_reversed"
    by (simp add: raster_3x4_reversed_def raster_3x4_def)
  then show ?thesis
    using reorient_preserves_link_ends [OF geometry_3x4_reversed] geometry_3x4_reversed
    by (auto simp: reorient_reversed_raster)
qed

end
